theory Spec2Isabelle
  imports Complex_Main "HOL-Library.Sublist"
begin

section \<open>JavaScript values as the relay sees them\<close>

text \<open>
  The relay (src/index.ts) is TypeScript running on Node. Its inbound payload is
  \<^verbatim>\<open>req.body as KenerPayload\<close>: an unchecked cast of whatever \<^verbatim>\<open>express.json\<close> parsed, so
  the functions below work on JSON values, not on the declared field types.

  A JavaScript string is modelled by the bytes of its UTF-8 encoding (a \<open>char\<close> is a
  byte). A number is an IEEE double: not-a-number, an infinity, or a finite rational.
  \<^verbatim>\<open>undefined\<close> is \<open>None\<close> of \<open>jsval option\<close>.
\<close>

datatype jsnum = NaN | PosInf | NegInf | Fin rat

datatype jsval =
    JNull
  | JBool bool
  | JNum jsnum
  | JStr string
  | JArr "jsval list"
  | JObj "(string \<times> jsval) list"

datatype error = TypeError | RangeError | Error string

text \<open>
  The parts of the JavaScript runtime the relay calls and this theory does not define:
  \<^verbatim>\<open>String.prototype.trim\<close>, \<^verbatim>\<open>Number(s)\<close>, the number-to-string conversion,
  \<^verbatim>\<open>Date.parse\<close> (\<open>None\<close> is the NaN time value), the en-GB rendering of a valid time value
  with \<^verbatim>\<open>dateStyle: "medium", timeStyle: "short", timeZone: "UTC"\<close>, and
  the quoting of a string by \<^verbatim>\<open>JSON.stringify\<close>. Every function that needs one of them takes the runtime as
  its first argument, and every theorem holds for every runtime.
\<close>

record runtime =
  String_trim :: "string \<Rightarrow> string"
  Number_of_string :: "string \<Rightarrow> jsnum"
  Number_toString :: "jsnum \<Rightarrow> string"
  Date_parse :: "string \<Rightarrow> int option"
  Date_format :: "int \<Rightarrow> string"
  JSON_quote :: "string \<Rightarrow> string"

subsection \<open>Truthiness, \<^verbatim>\<open>||\<close>, \<^verbatim>\<open>??\<close>, property reads\<close>

fun num_truthy :: "jsnum \<Rightarrow> bool" where
  "num_truthy NaN = False"
| "num_truthy (Fin r) = (r \<noteq> 0)"
| "num_truthy PosInf = True"
| "num_truthy NegInf = True"

fun truthy :: "jsval \<Rightarrow> bool" where
  "truthy JNull = False"
| "truthy (JBool b) = b"
| "truthy (JNum n) = num_truthy n"
| "truthy (JStr s) = (s \<noteq> [])"
| "truthy (JArr xs) = True"
| "truthy (JObj kvs) = True"

text \<open>\<^verbatim>\<open>x || d\<close>, where \<open>x\<close> may be undefined.\<close>

definition or_else :: "jsval option \<Rightarrow> jsval \<Rightarrow> jsval" where
  "or_else x d = (case x of None \<Rightarrow> d | Some v \<Rightarrow> if truthy v then v else d)"

text \<open>\<^verbatim>\<open>x ?? d\<close>: the default replaces undefined and null only.\<close>

definition nullish_else :: "jsval option \<Rightarrow> jsval \<Rightarrow> jsval" where
  "nullish_else x d = (case x of None \<Rightarrow> d | Some JNull \<Rightarrow> d | Some v \<Rightarrow> v)"

text \<open>
  \<^verbatim>\<open>v.k\<close> on a value that is neither null nor undefined, for the data keys the relay
  reads (id, alert_name, severity, status, source, timestamp, description, details,
  actions, metric, current_value, threshold, text, url, ok). None of them is a property
  of a prototype, so only a parsed object can hold one; \<open>JObj\<close> lists the object's own
  properties, each key once.
\<close>

fun get_prop :: "jsval \<Rightarrow> string \<Rightarrow> jsval option" where
  "get_prop (JObj kvs) k = map_of kvs k"
| "get_prop v k = None"

text \<open>\<^verbatim>\<open>a?.k\<close>: undefined when \<open>a\<close> is undefined or null.\<close>

fun opt_chain :: "jsval option \<Rightarrow> string \<Rightarrow> jsval option" where
  "opt_chain None k = None"
| "opt_chain (Some JNull) k = None"
| "opt_chain (Some v) k = get_prop v k"

subsection \<open>Conversion to string\<close>

text \<open>
  \<^verbatim>\<open>String(v)\<close>, a template literal's \<^verbatim>\<open>${v}\<close> and the method call \<^verbatim>\<open>v.toString()\<close> agree on
  JSON values. An array joins its elements with commas, null elements as the empty
  string. A parsed object answers \<^verbatim>\<open>[object Object]\<close> from \<^verbatim>\<open>Object.prototype\<close>, unless it
  has a key \<^verbatim>\<open>toString\<close> of its own: that value came from JSON, is not callable, and the
  conversion raises a TypeError.
\<close>

fun ToString :: "runtime \<Rightarrow> jsval \<Rightarrow> error + string"
  and join_elements :: "runtime \<Rightarrow> jsval list \<Rightarrow> error + string"
where
  "ToString rt JNull = Inr ''null''"
| "ToString rt (JBool b) = Inr (if b then ''true'' else ''false'')"
| "ToString rt (JNum n) = Inr (Number_toString rt n)"
| "ToString rt (JStr s) = Inr s"
| "ToString rt (JArr xs) = join_elements rt xs"
| "ToString rt (JObj kvs) =
     (if map_of kvs ''toString'' = None then Inr ''[object Object]'' else Inl TypeError)"
| "join_elements rt [] = Inr []"
| "join_elements rt (x # xs) =
     (case (if x = JNull then Inr [] else ToString rt x) of
        Inl e \<Rightarrow> Inl e
      | Inr s \<Rightarrow>
          if xs = [] then Inr s
          else (case join_elements rt xs of
                  Inl e \<Rightarrow> Inl e
                | Inr r \<Rightarrow> Inr (s @ '','' @ r)))"

section \<open>The authenticator\<close>

text \<open>
  \<^verbatim>\<open>Buffer.from(s, "utf8")\<close>: the bytes of the string, which is how strings are
  represented here.
\<close>

definition Buffer_from_utf8 :: "string \<Rightarrow> char list" where
  "Buffer_from_utf8 s = s"

text \<open>
  Node's \<^verbatim>\<open>crypto.timingSafeEqual\<close>: a RangeError when the byte lengths differ, else
  whether the buffers hold the same bytes.
\<close>

definition crypto_timingSafeEqual :: "char list \<Rightarrow> char list \<Rightarrow> error + bool" where
  "crypto_timingSafeEqual ba bb =
     (if length ba \<noteq> length bb then Inl RangeError else Inr (ba = bb))"

text \<open>index.ts, lines 72-77. On strings \<^verbatim>\<open>a || ""\<close> is \<open>a\<close>.\<close>

definition timingSafeEq :: "string \<Rightarrow> string \<Rightarrow> error + bool" where
  "timingSafeEq a b =
     (let ba = Buffer_from_utf8 a; bb = Buffer_from_utf8 b
      in if length ba \<noteq> length bb then Inr False else crypto_timingSafeEqual ba bb)"

text \<open>
  The guard of the POST handler, index.ts lines 213-218: with an empty configured
  secret the comparison is skipped, otherwise the presented token must pass
  \<open>timingSafeEq\<close>. \<open>Inr True\<close> lets the request through.
\<close>

definition authorize :: "string \<Rightarrow> string \<Rightarrow> error + bool" where
  "authorize got secret = (if secret \<noteq> [] then timingSafeEq got secret else Inr True)"

section \<open>The normalizer\<close>

text \<open>
  What \<open>normalize\<close> returns (index.ts, lines 96-109). The TypeScript type says string
  for every field but the two values; at run time \<^verbatim>\<open>p.id || ""\<close> keeps whatever truthy
  value the payload holds, so those fields are JSON values here. Only \<open>description\<close> and
  \<open>metric\<close> go through \<^verbatim>\<open>.toString()\<close> and are strings whenever \<open>normalize\<close> returns.
\<close>

record NormalizedAlert =
  alert_id :: jsval
  alertName :: jsval
  severity :: jsval
  status :: jsval
  source :: jsval
  timestamp :: jsval
  description :: string
  metric :: string
  currentValue :: jsval
  threshold :: jsval
  actionText :: jsval
  actionUrl :: jsval

text \<open>
  index.ts, lines 86-90. Reading \<^verbatim>\<open>p.actions\<close> raises a TypeError when the payload itself is
  null. The first element of a non-empty array is the action, whatever it is.
\<close>

definition pickAction :: "jsval \<Rightarrow> error + (jsval \<times> jsval)" where
  "pickAction p =
     (if p = JNull then Inl TypeError
      else
        let a = (case get_prop p ''actions'' of
                   Some (JArr (x # xs)) \<Rightarrow> Some x
                 | _ \<Rightarrow> None)
        in Inr (or_else (opt_chain a ''text'') (JStr ''Open''),
                or_else (opt_chain a ''url'') (JStr [])))"

text \<open>
  index.ts, lines 92-110. \<open>now\<close> is what \<^verbatim>\<open>new Date().toISOString()\<close> would return at the
  moment of the call; the source reads the clock only when \<^verbatim>\<open>p.timestamp\<close> is falsy.
\<close>

definition normalize :: "runtime \<Rightarrow> string \<Rightarrow> jsval \<Rightarrow> error + NormalizedAlert" where
  "normalize rt now p =
     (case pickAction p of
        Inl e \<Rightarrow> Inl e
      | Inr action \<Rightarrow>
          let details = nullish_else (get_prop p ''details'') (JObj []) in
          (case ToString rt (or_else (get_prop p ''description'') (JStr [])) of
             Inl e \<Rightarrow> Inl e
           | Inr d \<Rightarrow>
               (case ToString rt (or_else (get_prop details ''metric'') (JStr [])) of
                  Inl e \<Rightarrow> Inl e
                | Inr m \<Rightarrow>
                    Inr \<lparr> alert_id = or_else (get_prop p ''id'') (JStr []),
                          alertName = or_else (get_prop p ''alert_name'') (JStr ''Alert''),
                          severity = or_else (get_prop p ''severity'') (JStr ''unknown''),
                          status = or_else (get_prop p ''status'') (JStr ''UNKNOWN''),
                          source = or_else (get_prop p ''source'') (JStr ''Kener''),
                          timestamp = or_else (get_prop p ''timestamp'') (JStr now),
                          description = d,
                          metric = m,
                          currentValue = nullish_else (get_prop details ''current_value'') JNull,
                          threshold = nullish_else (get_prop details ''threshold'') JNull,
                          actionText = fst action,
                          actionUrl = snd action \<rparr>)))"

section \<open>The formatter\<close>

definition replaceAll :: "char \<Rightarrow> string \<Rightarrow> string \<Rightarrow> string" where
  "replaceAll c r s = concat (map (\<lambda>x. if x = c then r else [x]) s)"

text \<open>
  index.ts, lines 79-84: \<^verbatim>\<open>(s || "").replace(/&/g, "&amp;").replace(/</g, "&lt;").replace(/>/g, "&gt;")\<close>.
  A falsy argument becomes the empty string. A truthy argument that is not a string
  (a number, true, an array, a parsed object) has no callable \<^verbatim>\<open>replace\<close>: a TypeError.
\<close>

definition escapeHtml :: "jsval \<Rightarrow> error + string" where
  "escapeHtml s =
     (case or_else (Some s) (JStr []) of
        JStr t \<Rightarrow>
          Inr (replaceAll (CHR ''>'') ''&gt;''
                (replaceAll (CHR ''<'') ''&lt;''
                  (replaceAll (CHR ''&'') ''&amp;'' t)))
      | _ \<Rightarrow> Inl TypeError)"

text \<open>
  \<^verbatim>\<open>new Date(v)\<close>: a string is parsed, a number or boolean is clipped to a time value,
  an array or object is converted to a string first (which may raise) and then parsed.
  \<open>None\<close> is the invalid date.
\<close>

fun TimeClip :: "jsnum \<Rightarrow> int option" where
  "TimeClip (Fin r) =
     (if \<bar>r\<bar> \<le> 8640000000000000 then Some (if 0 \<le> r then \<lfloor>r\<rfloor> else - \<lfloor>- r\<rfloor>) else None)"
| "TimeClip NaN = None"
| "TimeClip PosInf = None"
| "TimeClip NegInf = None"

definition new_Date :: "runtime \<Rightarrow> jsval \<Rightarrow> error + int option" where
  "new_Date rt v =
     (case v of
        JStr s \<Rightarrow> Inr (Date_parse rt s)
      | JNum n \<Rightarrow> Inr (TimeClip n)
      | JBool b \<Rightarrow> Inr (TimeClip (Fin (if b then 1 else 0)))
      | JNull \<Rightarrow> Inr (TimeClip (Fin 0))
      | _ \<Rightarrow> (case ToString rt v of Inl e \<Rightarrow> Inl e | Inr s \<Rightarrow> Inr (Date_parse rt s)))"

text \<open>
  \<^verbatim>\<open>Date.prototype.toLocaleString\<close> with the options of index.ts lines 115-119. On an
  invalid date it does not raise: ECMAScript has it return the string "Invalid Date".
\<close>

definition Date_toLocaleString :: "runtime \<Rightarrow> int option \<Rightarrow> string" where
  "Date_toLocaleString rt tv =
     (case tv of None \<Rightarrow> ''Invalid Date'' | Some t \<Rightarrow> Date_format rt t)"

text \<open>
  index.ts, lines 112-124. The \<^verbatim>\<open>catch\<close> returns its argument as it is, so the result is
  a JSON value; on the \<^verbatim>\<open>try\<close> path it is a string.
\<close>

definition formatTime :: "runtime \<Rightarrow> jsval \<Rightarrow> jsval" where
  "formatTime rt isoV =
     (case new_Date rt isoV of
        Inr tv \<Rightarrow> JStr (Date_toLocaleString rt tv @ '' UTC'')
      | Inl e \<Rightarrow> isoV)"

text \<open>
  The glyph literals of index.ts lines 128-134, byte for byte as the source file holds
  them.
\<close>

definition glyph_triggered :: string where
  "glyph_triggered = [CHR 0xEF, CHR 0xA3, CHR 0xBF, CHR 0xC3, CHR 0xBC, CHR 0xC3, CHR 0xB6, CHR 0xC2, CHR 0xAE]"

definition glyph_resolved :: string where
  "glyph_resolved = [CHR 0xE2, CHR 0x80, CHR 0x9A, CHR 0xC3, CHR 0xBA, CHR 0xC3, CHR 0x96]"

definition glyph_other :: string where
  "glyph_other = [CHR 0xE2, CHR 0x80, CHR 0x9A, CHR 0xC3, CHR 0x91, CHR 0xCF, CHR 0x80, CHR 0xC3,
                  CHR 0x94, CHR 0xE2, CHR 0x88, CHR 0x8F, CHR 0xC3, CHR 0xA8]"

definition glyph_critical :: string where
  "glyph_critical = [CHR 0xEF, CHR 0xA3, CHR 0xBF, CHR 0xC3, CHR 0xBC, CHR 0xC3, CHR 0xAE, CHR 0xC2, CHR 0xA5]"

definition glyph_warning :: string where
  "glyph_warning = [CHR 0xEF, CHR 0xA3, CHR 0xBF, CHR 0xC3, CHR 0xBC, CHR 0xC3, CHR 0xBC, CHR 0xE2, CHR 0x80, CHR 0xA0]"

definition glyph_fine :: string where
  "glyph_fine = [CHR 0xEF, CHR 0xA3, CHR 0xBF, CHR 0xC3, CHR 0xBC, CHR 0xC3, CHR 0xBC, CHR 0xC2, CHR 0xA2]"

definition statusEmoji :: "jsval \<Rightarrow> string" where
  "statusEmoji st =
     (if st = JStr ''TRIGGERED'' then glyph_triggered
      else if st = JStr ''RESOLVED'' then glyph_resolved
      else glyph_other)"

definition severityEmoji :: "jsval \<Rightarrow> string" where
  "severityEmoji sv =
     (if sv = JStr ''critical'' then glyph_critical
      else if sv = JStr ''warning'' then glyph_warning
      else glyph_fine)"

text \<open>One pushed line: fixed markup around an escaped value, or the escape's error.\<close>

definition markup_line :: "string \<Rightarrow> error + string \<Rightarrow> string \<Rightarrow> error + string list" where
  "markup_line pre esc suf = (case esc of Inl e \<Rightarrow> Inl e | Inr s \<Rightarrow> Inr [pre @ s @ suf])"

text \<open>
  The pushes onto \<^verbatim>\<open>lines\<close> run in order; the first one that raises ends the function.
\<close>

fun collect :: "(error + string list) list \<Rightarrow> error + string list" where
  "collect [] = Inr []"
| "collect (Inl e # ps) = Inl e"
| "collect (Inr ls # ps) = (case collect ps of Inl e \<Rightarrow> Inl e | Inr r \<Rightarrow> Inr (ls @ r))"

text \<open>\<^verbatim>\<open>lines.join("\n")\<close>\<close>

fun join_lines :: "string list \<Rightarrow> string" where
  "join_lines [] = []"
| "join_lines [l] = l"
| "join_lines (l # ls) = l @ [CHR 0x0A] @ join_lines ls"

text \<open>
  The pushes of \<open>buildTelegramMessage\<close>, index.ts lines 137-172, one definition for each.
  Line 137: the title.
\<close>

definition title_line :: "runtime \<Rightarrow> NormalizedAlert \<Rightarrow> error + string list" where
  "title_line rt k =
     (case ToString rt (alertName k) of
        Inl e \<Rightarrow> Inl e
      | Inr n \<Rightarrow>
          markup_line ''<b>'' (escapeHtml (JStr (statusEmoji (status k) @ '' '' @ n))) ''</b>'')"

text \<open>Lines 139-142: a blank line and the description, when there is one.\<close>

definition description_lines :: "NormalizedAlert \<Rightarrow> error + string list" where
  "description_lines k =
     (if description k \<noteq> []
      then (case escapeHtml (JStr (description k)) of
              Inl e \<Rightarrow> Inl e
            | Inr d \<Rightarrow> Inr [[], d])
      else Inr [])"

text \<open>Lines 145-150: severity and status, always.\<close>

definition severity_line :: "NormalizedAlert \<Rightarrow> error + string list" where
  "severity_line k =
     markup_line (severityEmoji (severity k) @ '' <b>Severity:</b> <code>'')
       (escapeHtml (severity k)) ''</code>''"

definition status_line :: "NormalizedAlert \<Rightarrow> error + string list" where
  "status_line k = markup_line ''<b>Status:</b> <code>'' (escapeHtml (status k)) ''</code>''"

text \<open>Lines 151-162: the four conditional fields.\<close>

definition source_line :: "NormalizedAlert \<Rightarrow> error + string list" where
  "source_line k =
     (if truthy (source k)
      then markup_line ''<b>Source:</b> <code>'' (escapeHtml (source k)) ''</code>''
      else Inr [])"

definition metric_line :: "NormalizedAlert \<Rightarrow> error + string list" where
  "metric_line k =
     (if metric k \<noteq> []
      then markup_line ''<b>Monitor:</b> <code>'' (escapeHtml (JStr (metric k))) ''</code>''
      else Inr [])"

definition current_line :: "runtime \<Rightarrow> NormalizedAlert \<Rightarrow> error + string list" where
  "current_line rt k =
     (if currentValue k \<noteq> JNull
      then (case ToString rt (currentValue k) of
              Inl e \<Rightarrow> Inl e
            | Inr s \<Rightarrow> markup_line ''<b>Current:</b> <code>'' (escapeHtml (JStr s)) ''</code>'')
      else Inr [])"

definition threshold_line :: "runtime \<Rightarrow> NormalizedAlert \<Rightarrow> error + string list" where
  "threshold_line rt k =
     (if threshold k \<noteq> JNull
      then (case ToString rt (threshold k) of
              Inl e \<Rightarrow> Inl e
            | Inr s \<Rightarrow> markup_line ''<b>Threshold:</b> <code>'' (escapeHtml (JStr s)) ''</code>'')
      else Inr [])"

text \<open>Lines 163-166: the time.\<close>

definition time_line :: "runtime \<Rightarrow> NormalizedAlert \<Rightarrow> error + string list" where
  "time_line rt k =
     (if truthy (timestamp k)
      then markup_line ''<b>Time:</b> <code>'' (escapeHtml (formatTime rt (timestamp k))) ''</code>''
      else Inr [])"

text \<open>
  Lines 167-172: the link. The pushed string itself starts with a line break, which
  gives the blank line before the link.
\<close>

definition link_line :: "NormalizedAlert \<Rightarrow> error + string list" where
  "link_line k =
     (if truthy (actionUrl k)
      then (case escapeHtml (actionUrl k) of
              Inl e \<Rightarrow> Inl e
            | Inr u \<Rightarrow>
                markup_line (([CHR 0x0A] @ ''<a href='' @ [CHR 0x22]) @ u @ ([CHR 0x22] @ ''>''))
                  (escapeHtml (actionText k)) ''</a>'')
      else Inr [])"

text \<open>The array \<^verbatim>\<open>lines\<close> at the end of \<open>buildTelegramMessage\<close>; line 144 is the blank line.\<close>

definition telegramLines :: "runtime \<Rightarrow> NormalizedAlert \<Rightarrow> error + string list" where
  "telegramLines rt k =
     collect
      [ title_line rt k, description_lines k, Inr [[]], severity_line k, status_line k,
        source_line k, metric_line k, current_line rt k, threshold_line rt k, time_line rt k,
        link_line k ]"

text \<open>Line 174.\<close>

definition buildTelegramMessage :: "runtime \<Rightarrow> NormalizedAlert \<Rightarrow> error + string" where
  "buildTelegramMessage rt k =
     (case telegramLines rt k of Inl e \<Rightarrow> Inl e | Inr ls \<Rightarrow> Inr (join_lines ls))"

section \<open>The dispatcher\<close>

record AppConfig =
  port :: jsnum
  kenerWebhookSecret :: string
  telegramBotToken :: string
  telegramChatId :: string

text \<open>
  \<^verbatim>\<open>JSON.stringify\<close> on a JSON value: a number that is not finite prints as null, strings
  and keys are quoted by the runtime.
\<close>

fun comma_join :: "string list \<Rightarrow> string" where
  "comma_join [] = []"
| "comma_join [s] = s"
| "comma_join (s # ss) = s @ '','' @ comma_join ss"

fun JSON_stringify :: "runtime \<Rightarrow> jsval \<Rightarrow> string" where
  "JSON_stringify rt JNull = ''null''"
| "JSON_stringify rt (JBool b) = (if b then ''true'' else ''false'')"
| "JSON_stringify rt (JNum n) = (case n of Fin r \<Rightarrow> Number_toString rt n | _ \<Rightarrow> ''null'')"
| "JSON_stringify rt (JStr s) = JSON_quote rt s"
| "JSON_stringify rt (JArr xs) = ''['' @ comma_join (map (JSON_stringify rt) xs) @ '']''"
| "JSON_stringify rt (JObj kvs) =
     ''{'' @ comma_join (map (\<lambda>kv. JSON_quote rt (fst kv) @ '':'' @ JSON_stringify rt (snd kv)) kvs)
       @ ''}''"

text \<open>
  What \<^verbatim>\<open>fetch\<close> gives back: the promise rejects (no response at all), or there is a
  response with a status and a body. \<open>json_body\<close> is \<open>None\<close> when \<^verbatim>\<open>resp.json()\<close> rejects,
  that is when the body is not JSON.
\<close>

record response =
  http_status :: nat
  json_body :: "jsval option"

datatype fetch_outcome = Rejected error | Responded response

text \<open>\<^verbatim>\<open>resp.ok\<close>: the status is in the range 200-299.\<close>

definition resp_ok :: "response \<Rightarrow> bool" where
  "resp_ok resp = (200 \<le> http_status resp \<and> http_status resp \<le> 299)"

definition TELEGRAM_PARSE_MODE :: string where
  "TELEGRAM_PARSE_MODE = ''HTML''"

text \<open>The URL and the body of the outbound POST, index.ts lines 183-194.\<close>

definition telegram_request :: "runtime \<Rightarrow> string \<Rightarrow> AppConfig \<Rightarrow> string \<times> string" where
  "telegram_request rt msg cfg =
     (''https://api.telegram.org/bot'' @ telegramBotToken cfg @ ''/sendMessage'',
      JSON_stringify rt
        (JObj [(''chat_id'', JStr (telegramChatId cfg)),
               (''text'', JStr msg),
               (''parse_mode'', JStr TELEGRAM_PARSE_MODE),
               (''disable_web_page_preview'', JBool True)]))"

text \<open>
  \<^verbatim>\<open>data\<close> of index.ts line 197: the decoded body, or null when decoding failed.
\<close>

definition response_data :: "response \<Rightarrow> jsval" where
  "response_data resp = (case json_body resp of None \<Rightarrow> JNull | Some v \<Rightarrow> v)"

text \<open>\<^verbatim>\<open>!x\<close> on a value that may be undefined.\<close>

definition falsy_opt :: "jsval option \<Rightarrow> bool" where
  "falsy_opt x = (case x of None \<Rightarrow> True | Some v \<Rightarrow> \<not> truthy v)"

definition dispatch_message :: "runtime \<Rightarrow> response \<Rightarrow> string" where
  "dispatch_message rt resp =
     ''Telegram sendMessage failed: HTTP '' @ Number_toString rt (Fin (of_nat (http_status resp)))
       @ '' body='' @ JSON_stringify rt (response_data resp)"

text \<open>
  index.ts, lines 179-205, as a function of what the network answers: how the promise
  of \<open>sendTelegram\<close> settles. The request it issues is \<open>telegram_request\<close>.
\<close>

definition sendTelegram :: "runtime \<Rightarrow> fetch_outcome \<Rightarrow> error + unit" where
  "sendTelegram rt outcome =
     (case outcome of
        Rejected e \<Rightarrow> Inl e
      | Responded resp \<Rightarrow>
          if \<not> resp_ok resp \<or> falsy_opt (opt_chain (Some (response_data resp)) ''ok'')
          then Inl (Error (dispatch_message rt resp))
          else Inr ())"

section \<open>The webhook endpoint\<close>

record request =
  x_kener_token :: "string option"
  payload :: jsval

text \<open>
  What a run of POST / does, in order: a response written by the route callback, the
  error response Express writes for a request its middleware refused (status only), an
  outbound \<^verbatim>\<open>fetch\<close> issued (URL and body), an error logged, or an exception leaving the
  callback.
\<close>

datatype event =
    Respond nat jsval
  | ErrorResponse nat
  | Fetch string string
  | ConsoleError error
  | Uncaught error

text \<open>\<^verbatim>\<open>req.header("x-kener-token") || ""\<close>\<close>

definition header_or_empty :: "request \<Rightarrow> string" where
  "header_or_empty req = (case x_kener_token req of None \<Rightarrow> [] | Some h \<Rightarrow> h)"

text \<open>
  The route callback, index.ts lines 211-231, on a request the body parser has passed
  on. \<open>outcome\<close> is what the network will answer to the outbound call, should one be
  made; \<open>now\<close> is the clock reading for \<open>normalize\<close>.
\<close>

definition post_handler ::
  "runtime \<Rightarrow> AppConfig \<Rightarrow> string \<Rightarrow> fetch_outcome \<Rightarrow> request \<Rightarrow> event list" where
  "post_handler rt cfg now outcome req =
     (case authorize (String_trim rt (header_or_empty req)) (kenerWebhookSecret cfg) of
        Inl e \<Rightarrow> [Uncaught e]
      | Inr False \<Rightarrow>
          [Respond 401 (JObj [(''ok'', JBool False), (''error'', JStr ''invalid token'')])]
      | Inr True \<Rightarrow>
          Respond 200 (JObj [(''ok'', JBool True)]) #
          (case normalize rt now (payload req) of
             Inl e \<Rightarrow> [Uncaught e]
           | Inr k \<Rightarrow>
               (case buildTelegramMessage rt k of
                  Inl e \<Rightarrow> [Uncaught e]
                | Inr msg \<Rightarrow>
                    Fetch (fst (telegram_request rt msg cfg)) (snd (telegram_request rt msg cfg)) #
                    (case sendTelegram rt outcome of
                       Inl e \<Rightarrow> [ConsoleError e]
                     | Inr u \<Rightarrow> []))))"

text \<open>
  index.ts, line 70: \<^verbatim>\<open>app.use(express.json({ limit: "256kb" }))\<close> runs on every request before
  the route callback. Either it passes the request on with \<^verbatim>\<open>req.body\<close> as it left it (the
  parsed object or array; when there is no JSON body to parse, the empty object in
  Express 4 and nothing in Express 5, which is null here), or it refuses it with an error
  that carries a status: 400 for a body that is not JSON or not an object or array, 413
  for a body above the 256kb limit, 415 for an encoding it does not support. Express
  answers a refused request with that status and never runs the callback. The parser's
  verdict is part of the request as the route sees it.
\<close>

datatype body_verdict = Accepted jsval | Refused nat

record http_request =
  token_header :: "string option"
  parsed_body :: body_verdict

text \<open>POST /: the middleware of line 70, then the callback of lines 211-231.\<close>

definition post_route ::
  "runtime \<Rightarrow> AppConfig \<Rightarrow> string \<Rightarrow> fetch_outcome \<Rightarrow> http_request \<Rightarrow> event list" where
  "post_route rt cfg now outcome rq =
     (case parsed_body rq of
        Refused st \<Rightarrow> [ErrorResponse st]
      | Accepted p \<Rightarrow>
          post_handler rt cfg now outcome \<lparr>x_kener_token = token_header rq, payload = p\<rparr>)"

section \<open>Configuration\<close>

record environment =
  PORT :: "string option"
  KENER_WEBHOOK_SECRET :: "string option"
  TELEGRAM_BOT_TOKEN :: "string option"
  TELEGRAM_CHAT_ID :: "string option"

text \<open>\<^verbatim>\<open>process.env.X || d\<close>: the default also replaces a variable set to the empty string.\<close>

definition env_or :: "string option \<Rightarrow> string \<Rightarrow> string" where
  "env_or x d = (case x of None \<Rightarrow> d | Some s \<Rightarrow> if s \<noteq> [] then s else d)"

text \<open>
  The port text as the specification words it, "defaulting to 3000 when unset": an empty
  \<^verbatim>\<open>PORT\<close> is set, and stays as it is.
\<close>

definition port_text_when_unset :: "environment \<Rightarrow> string" where
  "port_text_when_unset env = (case PORT env of None \<Rightarrow> ''3000'' | Some s \<Rightarrow> s)"

fun Number_isFinite :: "jsnum \<Rightarrow> bool" where
  "Number_isFinite (Fin r) = True"
| "Number_isFinite n = False"

text \<open>\<^verbatim>\<open>n <= 0\<close> on a number: false on NaN.\<close>

fun le_zero :: "jsnum \<Rightarrow> bool" where
  "le_zero (Fin r) = (r \<le> 0)"
| "le_zero NegInf = True"
| "le_zero PosInf = False"
| "le_zero NaN = False"

text \<open>index.ts, lines 32-55.\<close>

definition loadConfig :: "runtime \<Rightarrow> environment \<Rightarrow> error + AppConfig" where
  "loadConfig rt env =
     (let portRaw = String_trim rt (env_or (PORT env) ''3000'');
          portN = Number_of_string rt portRaw
      in if \<not> Number_isFinite portN \<or> le_zero portN
         then Inl (Error (''Invalid PORT value '' @ [CHR 0x22] @ portRaw @ [CHR 0x22]))
         else
           let token = String_trim rt (env_or (TELEGRAM_BOT_TOKEN env) [])
           in if token = [] then Inl (Error ''Missing TELEGRAM_BOT_TOKEN'')
              else
                let chat = String_trim rt (env_or (TELEGRAM_CHAT_ID env) [])
                in if chat = [] then Inl (Error ''Missing TELEGRAM_CHAT_ID'')
                   else Inr \<lparr> port = portN,
                              kenerWebhookSecret =
                                String_trim rt (env_or (KENER_WEBHOOK_SECRET env) []),
                              telegramBotToken = token,
                              telegramChatId = chat \<rparr>)"

section \<open>A runtime for the examples\<close>

text \<open>
  The examples below are evaluated on this fragment of a runtime. It agrees with Node on
  the inputs the examples give it: trimming ASCII blanks, the numerals 3000 and 200, one
  ISO date, and the quoting of strings that need no escape.
\<close>

definition trim_blanks :: "string \<Rightarrow> string" where
  "trim_blanks s =
     rev (dropWhile (\<lambda>c. c = CHR '' '') (rev (dropWhile (\<lambda>c. c = CHR '' '') s)))"

definition sample_runtime :: runtime where
  "sample_runtime =
     \<lparr> String_trim = trim_blanks,
       Number_of_string =
         (\<lambda>s. if s = ''3000'' then Fin 3000 else if s = ''0'' then Fin 0
               else if s = [] then Fin 0 else NaN),
       Number_toString =
         (\<lambda>n. if n = Fin 5 then ''5'' else if n = Fin 200 then ''200''
               else if n = Fin 3000 then ''3000'' else ''0''),
       Date_parse =
         (\<lambda>s. if s = ''2024-01-02T03:04:05.000Z'' then Some 1704164645000 else None),
       Date_format = (\<lambda>t. ''2 Jan 2024, 03:04''),
       JSON_quote = (\<lambda>s. [CHR 0x22] @ s @ [CHR 0x22]) \<rparr>"

text \<open>
  Two alerts for the examples: one with markup characters in its name, description and
  link, and one with every optional field empty.
\<close>

definition sample_alert :: NormalizedAlert where
  "sample_alert =
     \<lparr> alert_id = JStr ''demo-1'', alertName = JStr ''<script>'',
       severity = JStr ''critical'', status = JStr ''TRIGGERED'', source = JStr ''Kener'',
       timestamp = JStr ''2024-01-02T03:04:05.000Z'',
       description = ''a & b'', metric = [], currentValue = JNum (Fin 5), threshold = JNull,
       actionText = JStr ''Open'', actionUrl = JStr ''http://x/?a>b'' \<rparr>"

definition bare_alert :: NormalizedAlert where
  "bare_alert =
     \<lparr> alert_id = JStr [], alertName = JStr ''Alert'',
       severity = JStr ''unknown'', status = JStr ''UNKNOWN'', source = JStr [],
       timestamp = JStr ''not-a-date'',
       description = [], metric = [], currentValue = JNull, threshold = JNull,
       actionText = JStr ''Open'', actionUrl = JStr [] \<rparr>"

section \<open>Vocabulary of the specification\<close>

subsection \<open>The declared types\<close>

text \<open>
  The type \<^verbatim>\<open>KenerPayload\<close> of index.ts lines 5-21, as a predicate on JSON values: every
  declared field is absent or has its declared type (a string; a number or a string for
  the two values of \<^verbatim>\<open>details\<close>); undeclared keys are free.
\<close>

definition string_or_absent :: "jsval option \<Rightarrow> bool" where
  "string_or_absent x = (case x of None \<Rightarrow> True | Some (JStr s) \<Rightarrow> True | Some v \<Rightarrow> False)"

definition value_or_absent :: "jsval option \<Rightarrow> bool" where
  "value_or_absent x =
     (case x of None \<Rightarrow> True | Some (JStr s) \<Rightarrow> True | Some (JNum n) \<Rightarrow> True | Some v \<Rightarrow> False)"

definition details_typed :: "jsval option \<Rightarrow> bool" where
  "details_typed x =
     (case x of
        None \<Rightarrow> True
      | Some (JObj kvs) \<Rightarrow>
          string_or_absent (map_of kvs ''metric'') \<and>
          value_or_absent (map_of kvs ''current_value'') \<and>
          value_or_absent (map_of kvs ''threshold'')
      | Some v \<Rightarrow> False)"

definition action_typed :: "jsval \<Rightarrow> bool" where
  "action_typed a =
     (case a of
        JObj kvs \<Rightarrow> string_or_absent (map_of kvs ''text'') \<and> string_or_absent (map_of kvs ''url'')
      | _ \<Rightarrow> False)"

definition actions_typed :: "jsval option \<Rightarrow> bool" where
  "actions_typed x =
     (case x of None \<Rightarrow> True | Some (JArr xs) \<Rightarrow> list_all action_typed xs | Some v \<Rightarrow> False)"

definition KenerPayload_typed :: "jsval \<Rightarrow> bool" where
  "KenerPayload_typed p =
     (case p of
        JObj kvs \<Rightarrow>
          string_or_absent (map_of kvs ''id'') \<and>
          string_or_absent (map_of kvs ''alert_name'') \<and>
          string_or_absent (map_of kvs ''severity'') \<and>
          string_or_absent (map_of kvs ''status'') \<and>
          string_or_absent (map_of kvs ''source'') \<and>
          string_or_absent (map_of kvs ''timestamp'') \<and>
          string_or_absent (map_of kvs ''description'') \<and>
          details_typed (map_of kvs ''details'') \<and>
          actions_typed (map_of kvs ''actions'')
      | _ \<Rightarrow> False)"

text \<open>
  The return type of \<open>normalize\<close> as TypeScript infers it: strings, and a number, a string
  or null for the two values.
\<close>

definition is_string :: "jsval \<Rightarrow> bool" where
  "is_string v = (case v of JStr s \<Rightarrow> True | _ \<Rightarrow> False)"

definition is_value_or_null :: "jsval \<Rightarrow> bool" where
  "is_value_or_null v = (case v of JNull \<Rightarrow> True | JNum n \<Rightarrow> True | JStr s \<Rightarrow> True | _ \<Rightarrow> False)"

definition NormalizedAlert_typed :: "NormalizedAlert \<Rightarrow> bool" where
  "NormalizedAlert_typed k =
     (is_string (alert_id k) \<and> is_string (alertName k) \<and> is_string (severity k) \<and>
      is_string (status k) \<and> is_string (source k) \<and> is_string (timestamp k) \<and>
      is_value_or_null (currentValue k) \<and> is_value_or_null (threshold k) \<and>
      is_string (actionText k) \<and> is_string (actionUrl k))"

subsection \<open>The documented defaults\<close>

text \<open>
  The normalized alert as the specification words it: each field is the inbound string
  when there is a non-empty one, and otherwise its default (id "", alertName "Alert",
  severity "unknown", status "UNKNOWN", source "Kener", timestamp the current time,
  description "", metric "", actionText "Open", actionUrl ""); the two values are passed
  through when present and null otherwise; the action is the first element of a
  non-empty actions sequence.
\<close>

definition string_or :: "jsval option \<Rightarrow> string \<Rightarrow> string" where
  "string_or x d = (case x of Some (JStr s) \<Rightarrow> (if s = [] then d else s) | _ \<Rightarrow> d)"

definition value_or_null :: "jsval option \<Rightarrow> jsval" where
  "value_or_null x = (case x of Some v \<Rightarrow> v | None \<Rightarrow> JNull)"

definition first_action :: "jsval \<Rightarrow> jsval" where
  "first_action p = (case get_prop p ''actions'' of Some (JArr (a # as)) \<Rightarrow> a | _ \<Rightarrow> JObj [])"

definition details_of :: "jsval \<Rightarrow> jsval" where
  "details_of p = (case get_prop p ''details'' of Some d \<Rightarrow> d | None \<Rightarrow> JObj [])"

definition documented_defaults :: "string \<Rightarrow> jsval \<Rightarrow> NormalizedAlert" where
  "documented_defaults now p =
     \<lparr> alert_id = JStr (string_or (get_prop p ''id'') []),
       alertName = JStr (string_or (get_prop p ''alert_name'') ''Alert''),
       severity = JStr (string_or (get_prop p ''severity'') ''unknown''),
       status = JStr (string_or (get_prop p ''status'') ''UNKNOWN''),
       source = JStr (string_or (get_prop p ''source'') ''Kener''),
       timestamp = JStr (string_or (get_prop p ''timestamp'') now),
       description = string_or (get_prop p ''description'') [],
       metric = string_or (get_prop (details_of p) ''metric'') [],
       currentValue = value_or_null (get_prop (details_of p) ''current_value''),
       threshold = value_or_null (get_prop (details_of p) ''threshold''),
       actionText = JStr (string_or (get_prop (first_action p) ''text'') ''Open''),
       actionUrl = JStr (string_or (get_prop (first_action p) ''url'') []) \<rparr>"

subsection \<open>Markup-safe text\<close>

text \<open>
  A text is markup-safe when it holds no \<^verbatim>\<open><\<close> and no \<^verbatim>\<open>>\<close>, and every \<^verbatim>\<open>&\<close> in it opens one
  of the three entities.
\<close>

fun html_safe :: "string \<Rightarrow> bool" where
  "html_safe [] = True"
| "html_safe (c # cs) =
     (c \<noteq> CHR ''<'' \<and> c \<noteq> CHR ''>'' \<and>
      (c = CHR ''&'' \<longrightarrow> take 4 cs = ''amp;'' \<or> take 3 cs = ''lt;'' \<or> take 3 cs = ''gt;'') \<and>
      html_safe cs)"

text \<open>The escape of one character, for a single pass over the text.\<close>

definition escape_char :: "char \<Rightarrow> string" where
  "escape_char c =
     (if c = CHR ''&'' then ''&amp;'' else if c = CHR ''<'' then ''&lt;''
      else if c = CHR ''>'' then ''&gt;'' else [c])"

definition escape_text :: "string \<Rightarrow> string" where
  "escape_text t = concat (map escape_char t)"

text \<open>
  The text a value stands for where the formatter interpolates it: through \<open>escapeHtml\<close>
  directly (a string is itself, a falsy value is the empty text), or through
  \<^verbatim>\<open>String(v)\<close> or a template literal first.
\<close>

definition text_of :: "jsval \<Rightarrow> string" where
  "text_of v = (case v of JStr t \<Rightarrow> t | _ \<Rightarrow> [])"

definition string_of :: "runtime \<Rightarrow> jsval \<Rightarrow> string" where
  "string_of rt v = (case ToString rt v of Inr s \<Rightarrow> s | Inl e \<Rightarrow> [])"




text \<open>
  A rendered message read as a sequence of pieces: markup the formatter inserts itself,
  and text that came out of \<open>escapeHtml\<close>.
\<close>

datatype piece = Markup string | Escaped string

fun piece_text :: "piece \<Rightarrow> string" where
  "piece_text (Markup m) = m"
| "piece_text (Escaped e) = e"

definition render :: "piece list \<Rightarrow> string" where
  "render ps = concat (map piece_text ps)"

text \<open>
  Every markup literal of \<open>buildTelegramMessage\<close>: the tags, the labels, the severity
  glyphs (the status glyph is escaped with the title), and the line break of the join.
\<close>

definition fixed_markup :: "string list" where
  "fixed_markup =
     [ ''<b>'', ''</b>'', ''</code>'', [CHR 0x0A],
       glyph_critical, glyph_warning, glyph_fine,
       '' <b>Severity:</b> <code>'', ''<b>Status:</b> <code>'', ''<b>Source:</b> <code>'',
       ''<b>Monitor:</b> <code>'', ''<b>Current:</b> <code>'', ''<b>Threshold:</b> <code>'',
       ''<b>Time:</b> <code>'',
       [CHR 0x0A] @ ''<a href='' @ [CHR 0x22], [CHR 0x22] @ ''>'', ''</a>'' ]"

fun piece_ok :: "piece \<Rightarrow> bool" where
  "piece_ok (Markup m) = (m \<in> set fixed_markup)"
| "piece_ok (Escaped e) = html_safe e"

text \<open>
  The message as the specification's algorithm lays it out (steps 3 to 9), piece by
  piece: the markup is fixed, and every interpolated value (alert name with its status
  glyph, description, severity, status, source, metric, the two values, the time, the
  link URL and the link text) is one piece holding the escape of that value's text. Each
  line after the first is preceded by the line break of the join.
\<close>

definition title_pieces :: "runtime \<Rightarrow> NormalizedAlert \<Rightarrow> piece list" where
  "title_pieces rt k =
     [ Markup ''<b>'',
       Escaped (escape_text (statusEmoji (status k) @ '' '' @ string_of rt (alertName k))),
       Markup ''</b>'' ]"

definition description_pieces :: "NormalizedAlert \<Rightarrow> piece list" where
  "description_pieces k =
     (if description k \<noteq> []
      then [ Markup [CHR 0x0A], Markup [CHR 0x0A], Escaped (escape_text (description k)) ]
      else [])"

definition severity_pieces :: "NormalizedAlert \<Rightarrow> piece list" where
  "severity_pieces k =
     [ Markup [CHR 0x0A], Markup (severityEmoji (severity k)),
       Markup '' <b>Severity:</b> <code>'', Escaped (escape_text (text_of (severity k))),
       Markup ''</code>'' ]"

definition status_pieces :: "NormalizedAlert \<Rightarrow> piece list" where
  "status_pieces k =
     [ Markup [CHR 0x0A], Markup ''<b>Status:</b> <code>'',
       Escaped (escape_text (text_of (status k))), Markup ''</code>'' ]"

definition source_pieces :: "NormalizedAlert \<Rightarrow> piece list" where
  "source_pieces k =
     (if truthy (source k)
      then [ Markup [CHR 0x0A], Markup ''<b>Source:</b> <code>'',
             Escaped (escape_text (text_of (source k))), Markup ''</code>'' ]
      else [])"

definition metric_pieces :: "NormalizedAlert \<Rightarrow> piece list" where
  "metric_pieces k =
     (if metric k \<noteq> []
      then [ Markup [CHR 0x0A], Markup ''<b>Monitor:</b> <code>'',
             Escaped (escape_text (metric k)), Markup ''</code>'' ]
      else [])"

definition current_pieces :: "runtime \<Rightarrow> NormalizedAlert \<Rightarrow> piece list" where
  "current_pieces rt k =
     (if currentValue k \<noteq> JNull
      then [ Markup [CHR 0x0A], Markup ''<b>Current:</b> <code>'',
             Escaped (escape_text (string_of rt (currentValue k))), Markup ''</code>'' ]
      else [])"

definition threshold_pieces :: "runtime \<Rightarrow> NormalizedAlert \<Rightarrow> piece list" where
  "threshold_pieces rt k =
     (if threshold k \<noteq> JNull
      then [ Markup [CHR 0x0A], Markup ''<b>Threshold:</b> <code>'',
             Escaped (escape_text (string_of rt (threshold k))), Markup ''</code>'' ]
      else [])"

definition time_pieces :: "runtime \<Rightarrow> NormalizedAlert \<Rightarrow> piece list" where
  "time_pieces rt k =
     (if truthy (timestamp k)
      then [ Markup [CHR 0x0A], Markup ''<b>Time:</b> <code>'',
             Escaped (escape_text (text_of (formatTime rt (timestamp k)))), Markup ''</code>'' ]
      else [])"

definition link_pieces :: "NormalizedAlert \<Rightarrow> piece list" where
  "link_pieces k =
     (if truthy (actionUrl k)
      then [ Markup [CHR 0x0A], Markup ([CHR 0x0A] @ ''<a href='' @ [CHR 0x22]),
             Escaped (escape_text (text_of (actionUrl k))), Markup ([CHR 0x22] @ ''>''),
             Escaped (escape_text (text_of (actionText k))), Markup ''</a>'' ]
      else [])"

definition message_pieces :: "runtime \<Rightarrow> NormalizedAlert \<Rightarrow> piece list" where
  "message_pieces rt k =
     title_pieces rt k @ description_pieces k @ [Markup [CHR 0x0A]] @ severity_pieces k @
     status_pieces k @ source_pieces k @ metric_pieces k @ current_pieces rt k @
     threshold_pieces rt k @ time_pieces rt k @ link_pieces k"

text \<open>
  The labels of the four conditional field lines, and the anchor that opens the link
  line.
\<close>

definition message_labels :: "string list" where
  "message_labels =
     [ ''<b>Source:</b>'', ''<b>Monitor:</b>'', ''<b>Current:</b>'', ''<b>Threshold:</b>'',
       ''<a href='' ]"

subsection \<open>Events of a handler run\<close>

fun is_Respond :: "event \<Rightarrow> bool" where
  "is_Respond (Respond c b) = True"
| "is_Respond (ErrorResponse st) = True"
| "is_Respond e = False"

fun is_Fetch :: "event \<Rightarrow> bool" where
  "is_Fetch (Fetch u b) = True"
| "is_Fetch e = False"

section \<open>Theorems\<close>

subsection \<open>The authenticator\<close>

lemma timingSafeEq_total: "timingSafeEq a b = Inr (a = b)"
  by (auto simp: timingSafeEq_def Buffer_from_utf8_def crypto_timingSafeEqual_def)

text \<open>
  C2. The authenticator lets every token through when the configured secret is empty.
  With a non-empty secret it answers false when the byte lengths differ, answers true
  exactly on byte-for-byte equality when they agree, and raises for no pair of inputs:
  its result is always a boolean. The token "wrong" fails against the secret "secret",
  and "secret" passes.
\<close>

theorem authorize_spec:
  "(secret = [] \<longrightarrow> authorize got secret = Inr True) \<and>
   (secret \<noteq> [] \<and> length got \<noteq> length secret \<longrightarrow> authorize got secret = Inr False) \<and>
   (secret \<noteq> [] \<and> length got = length secret \<longrightarrow> authorize got secret = Inr (got = secret)) \<and>
   (\<exists>b. authorize got secret = Inr b) \<and>
   authorize ''wrong'' ''secret'' = Inr False \<and>
   authorize ''secret'' ''secret'' = Inr True \<and>
   authorize [] [] = Inr True"
  by (auto simp: authorize_def timingSafeEq_total)

theorem authorize_spec_witness:
  "authorize ''abc'' [] = Inr True \<and>
   authorize ''ab'' ''abc'' = Inr False \<and>
   authorize ''abd'' ''abc'' = Inr False \<and>
   authorize ''abc'' ''abc'' = Inr True"
  using authorize_spec [of "[]" "''abc''"] authorize_spec [of "''abc''" "''ab''"]
    authorize_spec [of "''abc''" "''abd''"] authorize_spec [of "''abc''" "''abc''"]
  by simp

subsection \<open>Configuration\<close>

text \<open>
  C9, as the claim states it, fails when PORT is set to the empty string: the claim's
  port text is then empty and parses to zero, which is not positive, yet loading
  succeeds with port 3000.
\<close>

theorem loadConfig_empty_port_counterexample:
  "loadConfig sample_runtime
     \<lparr>PORT = Some [], KENER_WEBHOOK_SECRET = None,
      TELEGRAM_BOT_TOKEN = Some ''tok'', TELEGRAM_CHAT_ID = Some ''42''\<rparr>
   = Inr \<lparr>port = Fin 3000, kenerWebhookSecret = [], telegramBotToken = ''tok'',
          telegramChatId = ''42''\<rparr> \<and>
   Number_of_string sample_runtime
     (String_trim sample_runtime
       (port_text_when_unset
         \<lparr>PORT = Some [], KENER_WEBHOOK_SECRET = None,
          TELEGRAM_BOT_TOKEN = Some ''tok'', TELEGRAM_CHAT_ID = Some ''42''\<rparr>)) = Fin 0"
  by (simp add: loadConfig_def sample_runtime_def env_or_def trim_blanks_def
      port_text_when_unset_def)

text \<open>
  C9, amended. Loading the configuration returns an AppConfig exactly when PORT (3000
  when unset or set to the empty string) parses to a positive finite number, the bot
  token is non-blank after trimming and the chat identifier is non-blank after trimming;
  in every other case it fails with an error. The shared secret plays no part in that:
  whatever it is set to, loading succeeds or fails alike, and a configuration whose
  secret is empty lets every token through.
\<close>

theorem loadConfig_iff:
  "((\<exists>cfg. loadConfig rt env = Inr cfg) \<longleftrightarrow>
      (\<exists>r. Number_of_string rt (String_trim rt (env_or (PORT env) ''3000'')) = Fin r \<and> 0 < r) \<and>
      String_trim rt (env_or (TELEGRAM_BOT_TOKEN env) []) \<noteq> [] \<and>
      String_trim rt (env_or (TELEGRAM_CHAT_ID env) []) \<noteq> []) \<and>
   ((\<exists>cfg. loadConfig rt env = Inr cfg) \<or> (\<exists>m. loadConfig rt env = Inl (Error m))) \<and>
   env_or None ''3000'' = ''3000'' \<and>
   env_or (Some []) ''3000'' = ''3000'' \<and>
   (\<forall>s. s \<noteq> [] \<longrightarrow> env_or (Some s) ''3000'' = s) \<and>
   ((\<exists>cfg. loadConfig rt (env\<lparr>KENER_WEBHOOK_SECRET := s1\<rparr>) = Inr cfg) \<longleftrightarrow>
    (\<exists>cfg. loadConfig rt (env\<lparr>KENER_WEBHOOK_SECRET := s2\<rparr>) = Inr cfg)) \<and>
   (\<forall>cfg. loadConfig rt env = Inr cfg \<longrightarrow>
      port cfg = Number_of_string rt (String_trim rt (env_or (PORT env) ''3000'')) \<and>
      kenerWebhookSecret cfg = String_trim rt (env_or (KENER_WEBHOOK_SECRET env) []) \<and>
      (kenerWebhookSecret cfg = [] \<longrightarrow> authorize got (kenerWebhookSecret cfg) = Inr True))"
proof -
  let ?n = "Number_of_string rt (String_trim rt (env_or (PORT env) ''3000''))"
  have pos: "(\<not> Number_isFinite ?n \<or> le_zero ?n) \<longleftrightarrow> \<not> (\<exists>r. ?n = Fin r \<and> 0 < r)"
    by (cases ?n) auto
  show ?thesis
    using pos
    by (auto simp: loadConfig_def Let_def env_or_def authorize_def split: if_splits)
qed

theorem loadConfig_iff_witness:
  "loadConfig sample_runtime
     \<lparr>PORT = None, KENER_WEBHOOK_SECRET = None,
      TELEGRAM_BOT_TOKEN = Some '' tok '', TELEGRAM_CHAT_ID = Some ''42''\<rparr>
   = Inr \<lparr>port = Fin 3000, kenerWebhookSecret = [], telegramBotToken = ''tok'',
          telegramChatId = ''42''\<rparr> \<and>
   authorize ''anything'' [] = Inr True \<and>
   (\<nexists>cfg. loadConfig sample_runtime
     \<lparr>PORT = Some ''0'', KENER_WEBHOOK_SECRET = None,
      TELEGRAM_BOT_TOKEN = Some ''tok'', TELEGRAM_CHAT_ID = Some ''42''\<rparr> = Inr cfg) \<and>
   (\<nexists>cfg. loadConfig sample_runtime
     \<lparr>PORT = None, KENER_WEBHOOK_SECRET = None,
      TELEGRAM_BOT_TOKEN = Some ''  '', TELEGRAM_CHAT_ID = Some ''42''\<rparr> = Inr cfg) \<and>
   (\<nexists>cfg. loadConfig sample_runtime
     \<lparr>PORT = None, KENER_WEBHOOK_SECRET = None,
      TELEGRAM_BOT_TOKEN = Some ''tok'', TELEGRAM_CHAT_ID = None\<rparr> = Inr cfg)"
proof -
  let ?good = "\<lparr>PORT = None, KENER_WEBHOOK_SECRET = None,
      TELEGRAM_BOT_TOKEN = Some '' tok '', TELEGRAM_CHAT_ID = Some ''42''\<rparr>"
  have ev: "loadConfig sample_runtime ?good
     = Inr \<lparr>port = Fin 3000, kenerWebhookSecret = [], telegramBotToken = ''tok'',
          telegramChatId = ''42''\<rparr>"
    by (simp add: loadConfig_def sample_runtime_def env_or_def trim_blanks_def)
  have a: "authorize ''anything'' [] = Inr True"
    using loadConfig_iff [of sample_runtime ?good None None "''anything''"] ev by simp
  have b: "\<nexists>cfg. loadConfig sample_runtime
     \<lparr>PORT = Some ''0'', KENER_WEBHOOK_SECRET = None,
      TELEGRAM_BOT_TOKEN = Some ''tok'', TELEGRAM_CHAT_ID = Some ''42''\<rparr> = Inr cfg"
    using loadConfig_iff [of sample_runtime "\<lparr>PORT = Some ''0'', KENER_WEBHOOK_SECRET = None,
      TELEGRAM_BOT_TOKEN = Some ''tok'', TELEGRAM_CHAT_ID = Some ''42''\<rparr>" None None "[]"]
    by (simp add: sample_runtime_def env_or_def trim_blanks_def)
  have c: "\<nexists>cfg. loadConfig sample_runtime
     \<lparr>PORT = None, KENER_WEBHOOK_SECRET = None,
      TELEGRAM_BOT_TOKEN = Some ''  '', TELEGRAM_CHAT_ID = Some ''42''\<rparr> = Inr cfg"
    using loadConfig_iff [of sample_runtime "\<lparr>PORT = None, KENER_WEBHOOK_SECRET = None,
      TELEGRAM_BOT_TOKEN = Some ''  '', TELEGRAM_CHAT_ID = Some ''42''\<rparr>" None None "[]"]
    by (simp add: sample_runtime_def env_or_def trim_blanks_def)
  have d: "\<nexists>cfg. loadConfig sample_runtime
     \<lparr>PORT = None, KENER_WEBHOOK_SECRET = None,
      TELEGRAM_BOT_TOKEN = Some ''tok'', TELEGRAM_CHAT_ID = None\<rparr> = Inr cfg"
    using loadConfig_iff [of sample_runtime "\<lparr>PORT = None, KENER_WEBHOOK_SECRET = None,
      TELEGRAM_BOT_TOKEN = Some ''tok'', TELEGRAM_CHAT_ID = None\<rparr>" None None "[]"]
    by (simp add: sample_runtime_def env_or_def trim_blanks_def)
  from ev a b c d show ?thesis by blast
qed

subsection \<open>The normalizer and the clock\<close>

text \<open>
  C6, as the claim states it, fails: the empty event normalized at two different clock
  readings gives two different records, because the timestamp defaults to the time of
  the call.
\<close>

theorem normalize_clock_counterexample:
  "normalize sample_runtime ''2024-01-02T03:04:05.000Z'' (JObj [])
     \<noteq> normalize sample_runtime ''2024-01-02T03:04:06.000Z'' (JObj [])"
  by (simp add: normalize_def pickAction_def or_else_def nullish_else_def)

text \<open>
  C6, amended. The result of normalize is a function of the event and of the clock
  reading alone. For every event that carries a non-empty (truthy) timestamp, two
  evaluations at any two moments return the same result. For every event, two
  evaluations at any two moments agree on everything but the timestamp field, which is
  the event's own timestamp if truthy and the time of the call otherwise.
\<close>

theorem normalize_deterministic:
  "((\<exists>v. get_prop p ''timestamp'' = Some v \<and> truthy v) \<longrightarrow>
      normalize rt now1 p = normalize rt now2 p) \<and>
   map_sum id (\<lambda>k. k\<lparr>timestamp := JNull\<rparr>) (normalize rt now1 p)
     = map_sum id (\<lambda>k. k\<lparr>timestamp := JNull\<rparr>) (normalize rt now2 p) \<and>
   (\<forall>k. normalize rt now1 p = Inr k \<longrightarrow>
      timestamp k = or_else (get_prop p ''timestamp'') (JStr now1))"
  by (auto simp: normalize_def Let_def or_else_def split: sum.splits option.splits)

theorem normalize_deterministic_witness:
  "normalize sample_runtime ''2024-01-02T03:04:05.000Z''
       (JObj [(''timestamp'', JStr ''2020-02-02T00:00:00Z'')])
     = normalize sample_runtime ''2024-01-02T03:04:06.000Z''
         (JObj [(''timestamp'', JStr ''2020-02-02T00:00:00Z'')])"
  using normalize_deterministic [of "JObj [(''timestamp'', JStr ''2020-02-02T00:00:00Z'')]"
      sample_runtime "''2024-01-02T03:04:05.000Z''" "''2024-01-02T03:04:06.000Z''"]
  by simp

subsection \<open>The dispatcher\<close>

text \<open>
  C7, as the claim states it, fails in one direction: a response with a success status
  whose body is \<^verbatim>\<open>{"ok":1}\<close> makes the dispatch succeed, though the flag is not true.
\<close>

theorem sendTelegram_truthy_counterexample:
  "sendTelegram sample_runtime
     (Responded \<lparr>http_status = 200, json_body = Some (JObj [(''ok'', JNum (Fin 1))])\<rparr>) = Inr () \<and>
   get_prop (JObj [(''ok'', JNum (Fin 1))]) ''ok'' \<noteq> Some (JBool True)"
  by (simp add: sendTelegram_def resp_ok_def falsy_opt_def response_data_def)

text \<open>
  C7, amended. Given a response, the dispatch succeeds exactly when the status is a
  success status and the body decodes to a JSON value whose \<open>ok\<close> field is truthy; for a
  body whose \<open>ok\<close> field is a boolean, as Telegram sends it, that is \<open>ok: true\<close>. In
  every other case it fails with an error whose message carries the status and the
  re-serialized body, or the marker \<open>null\<close> when the body could not be decoded. When the
  call itself is rejected, the dispatch fails with that rejection.
\<close>

theorem sendTelegram_spec:
  "(sendTelegram rt (Responded resp) = Inr () \<longleftrightarrow>
      resp_ok resp \<and> (\<exists>d v. json_body resp = Some d \<and> get_prop d ''ok'' = Some v \<and> truthy v)) \<and>
   (sendTelegram rt (Responded resp) \<noteq> Inr () \<longrightarrow>
      sendTelegram rt (Responded resp) =
        Inl (Error (''Telegram sendMessage failed: HTTP ''
                    @ Number_toString rt (Fin (of_nat (http_status resp)))
                    @ '' body=''
                    @ (case json_body resp of None \<Rightarrow> ''null'' | Some d \<Rightarrow> JSON_stringify rt d)))) \<and>
   (\<forall>d b. json_body resp = Some d \<and> get_prop d ''ok'' = Some (JBool b) \<longrightarrow>
      (sendTelegram rt (Responded resp) = Inr () \<longleftrightarrow> resp_ok resp \<and> b)) \<and>
   sendTelegram rt (Rejected e) = Inl e"
proof -
  have oc: "opt_chain (Some d) ''ok'' = get_prop d ''ok''" for d
    by (cases d) simp_all
  show ?thesis
    by (auto simp: sendTelegram_def falsy_opt_def response_data_def dispatch_message_def oc
        split: option.splits)
qed

theorem sendTelegram_spec_witness:
  "sendTelegram sample_runtime
     (Responded \<lparr>http_status = 200, json_body = Some (JObj [(''ok'', JBool True)])\<rparr>) = Inr () \<and>
   sendTelegram sample_runtime
     (Responded \<lparr>http_status = 200, json_body = Some (JObj [(''ok'', JBool False)])\<rparr>)
     = Inl (Error (''Telegram sendMessage failed: HTTP 200 body={'' @ [CHR 0x22] @ ''ok''
                   @ [CHR 0x22] @ '':false}'')) \<and>
   sendTelegram sample_runtime (Responded \<lparr>http_status = 200, json_body = None\<rparr>)
     = Inl (Error ''Telegram sendMessage failed: HTTP 200 body=null'')"
  using sendTelegram_spec [of sample_runtime
      "\<lparr>http_status = 200, json_body = Some (JObj [(''ok'', JBool True)])\<rparr>" TypeError]
    sendTelegram_spec [of sample_runtime
      "\<lparr>http_status = 200, json_body = Some (JObj [(''ok'', JBool False)])\<rparr>" TypeError]
    sendTelegram_spec [of sample_runtime "\<lparr>http_status = 200, json_body = None\<rparr>" TypeError]
  by (simp add: resp_ok_def sample_runtime_def)

subsection \<open>The webhook endpoint\<close>

text \<open>
  C4, as the claim states it, fails on a request whose body the JSON middleware
  refuses: with the right token and a body that is not JSON, the answer is the
  framework's 400, not 200 with \<^verbatim>\<open>{ok:true}\<close>.
\<close>

theorem post_route_refused_counterexample:
  "post_route sample_runtime
     \<lparr>port = Fin 3000, kenerWebhookSecret = ''secret'', telegramBotToken = ''tok'',
      telegramChatId = ''42''\<rparr>
     ''2024-01-02T03:04:05.000Z'' (Rejected TypeError)
     \<lparr>token_header = Some ''secret'', parsed_body = Refused 400\<rparr>
   = [ErrorResponse 400]"
  by (simp add: post_route_def)

text \<open>
  C4, amended. For every POST / request whose body the JSON middleware accepts: when a
  secret is configured and the trimmed \<open>x-kener-token\<close> header differs from it (a
  missing header counts as empty), the run is the single response 401 with body
  \<^verbatim>\<open>{ok:false,error:"invalid token"}\<close>: nothing follows, no outbound call is made. In every
  other case the first thing the run does is respond 200 with body \<^verbatim>\<open>{ok:true}\<close>; the
  outbound call and its outcome come after, and no second response follows. A request
  whose body the middleware refuses is answered with the middleware's error status
  alone, whatever the token, and makes no outbound call. Whatever the outbound call's
  outcome, the responses of the run are the same.
\<close>

theorem post_route_spec:
  "(\<forall>p. parsed_body rq = Accepted p \<and> kenerWebhookSecret cfg \<noteq> [] \<and>
        String_trim rt (case token_header rq of None \<Rightarrow> [] | Some h \<Rightarrow> h)
          \<noteq> kenerWebhookSecret cfg \<longrightarrow>
      post_route rt cfg now outcome rq =
        [Respond 401 (JObj [(''ok'', JBool False), (''error'', JStr ''invalid token'')])] \<and>
      filter is_Fetch (post_route rt cfg now outcome rq) = []) \<and>
   (\<forall>p. parsed_body rq = Accepted p \<and>
        (kenerWebhookSecret cfg = [] \<or>
         String_trim rt (case token_header rq of None \<Rightarrow> [] | Some h \<Rightarrow> h)
           = kenerWebhookSecret cfg) \<longrightarrow>
      (\<exists>rest. post_route rt cfg now outcome rq
                = Respond 200 (JObj [(''ok'', JBool True)]) # rest \<and>
              filter is_Respond rest = [])) \<and>
   (\<forall>st. parsed_body rq = Refused st \<longrightarrow>
      post_route rt cfg now outcome rq = [ErrorResponse st] \<and>
      filter is_Fetch (post_route rt cfg now outcome rq) = []) \<and>
   filter is_Respond (post_route rt cfg now outcome rq)
     = filter is_Respond (post_route rt cfg now outcome2 rq)"
  by (auto simp: post_route_def post_handler_def authorize_def timingSafeEq_total
      header_or_empty_def split: sum.splits bool.splits option.splits body_verdict.splits)

theorem post_route_spec_witness:
  "post_route sample_runtime
     \<lparr>port = Fin 3000, kenerWebhookSecret = ''secret'', telegramBotToken = ''tok'',
      telegramChatId = ''42''\<rparr>
     ''2024-01-02T03:04:05.000Z'' (Rejected TypeError)
     \<lparr>token_header = Some ''wrong'', parsed_body = Accepted (JObj [])\<rparr>
   = [Respond 401 (JObj [(''ok'', JBool False), (''error'', JStr ''invalid token'')])] \<and>
   (\<exists>rest. post_route sample_runtime
     \<lparr>port = Fin 3000, kenerWebhookSecret = ''secret'', telegramBotToken = ''tok'',
      telegramChatId = ''42''\<rparr>
     ''2024-01-02T03:04:05.000Z'' (Rejected TypeError)
     \<lparr>token_header = Some '' secret '', parsed_body = Accepted (JObj [])\<rparr>
      = Respond 200 (JObj [(''ok'', JBool True)]) # rest \<and> filter is_Respond rest = []) \<and>
   post_route sample_runtime
     \<lparr>port = Fin 3000, kenerWebhookSecret = ''secret'', telegramBotToken = ''tok'',
      telegramChatId = ''42''\<rparr>
     ''2024-01-02T03:04:05.000Z'' (Rejected TypeError)
     \<lparr>token_header = Some ''wrong'', parsed_body = Refused 413\<rparr>
   = [ErrorResponse 413]"
  using post_route_spec [of
      "\<lparr>token_header = Some ''wrong'', parsed_body = Accepted (JObj [])\<rparr>"
      "\<lparr>port = Fin 3000, kenerWebhookSecret = ''secret'', telegramBotToken = ''tok'',
        telegramChatId = ''42''\<rparr>"
      sample_runtime "''2024-01-02T03:04:05.000Z''" "Rejected TypeError" "Rejected TypeError"]
    post_route_spec [of
      "\<lparr>token_header = Some '' secret '', parsed_body = Accepted (JObj [])\<rparr>"
      "\<lparr>port = Fin 3000, kenerWebhookSecret = ''secret'', telegramBotToken = ''tok'',
        telegramChatId = ''42''\<rparr>"
      sample_runtime "''2024-01-02T03:04:05.000Z''" "Rejected TypeError" "Rejected TypeError"]
    post_route_spec [of
      "\<lparr>token_header = Some ''wrong'', parsed_body = Refused 413\<rparr>"
      "\<lparr>port = Fin 3000, kenerWebhookSecret = ''secret'', telegramBotToken = ''tok'',
        telegramChatId = ''42''\<rparr>"
      sample_runtime "''2024-01-02T03:04:05.000Z''" "Rejected TypeError" "Rejected TypeError"]
  by (simp add: sample_runtime_def trim_blanks_def)

subsection \<open>The normalizer on typed and untyped events\<close>

lemma opt_chain_Some: "opt_chain (Some v) key = get_prop v key"
  by (cases v) simp_all

lemma or_else_string:
  "string_or_absent x \<Longrightarrow> or_else x (JStr d) = JStr (string_or x d)"
  by (auto simp: string_or_absent_def or_else_def string_or_def split: option.splits jsval.splits)

lemma nullish_value:
  "value_or_absent x \<Longrightarrow> nullish_else x JNull = value_or_null x"
  by (auto simp: value_or_absent_def nullish_else_def value_or_null_def
      split: option.splits jsval.splits)

lemma pickAction_typed:
  assumes "p = JObj kvs" "actions_typed (map_of kvs ''actions'')"
  shows "pickAction p = Inr (JStr (string_or (get_prop (first_action p) ''text'') ''Open''),
                            JStr (string_or (get_prop (first_action p) ''url'') []))"
proof (cases "map_of kvs ''actions''")
  case None
  then show ?thesis using assms
    by (simp add: pickAction_def first_action_def or_else_def string_or_def)
next
  case (Some v)
  then obtain xs where v: "v = JArr xs" and all: "list_all action_typed xs"
    using assms(2) by (auto simp: actions_typed_def split: jsval.splits)
  show ?thesis
  proof (cases xs)
    case Nil
    then show ?thesis using assms Some v
      by (simp add: pickAction_def first_action_def or_else_def string_or_def)
  next
    case (Cons a as)
    with all obtain akvs where a: "a = JObj akvs"
      and t: "string_or_absent (map_of akvs ''text'')"
      and u: "string_or_absent (map_of akvs ''url'')"
      by (auto simp: action_typed_def split: jsval.splits)
    show ?thesis using assms(1) Some v Cons a or_else_string [OF t] or_else_string [OF u]
      by (simp add: pickAction_def first_action_def)
  qed
qed

lemma normalize_typed:
  assumes "KenerPayload_typed p"
  shows "normalize rt now p = Inr (documented_defaults now p)"
proof -
  from assms obtain kvs where p: "p = JObj kvs"
    by (auto simp: KenerPayload_typed_def split: jsval.splits)
  from assms p have f:
    "string_or_absent (map_of kvs ''id'')" "string_or_absent (map_of kvs ''alert_name'')"
    "string_or_absent (map_of kvs ''severity'')" "string_or_absent (map_of kvs ''status'')"
    "string_or_absent (map_of kvs ''source'')" "string_or_absent (map_of kvs ''timestamp'')"
    "string_or_absent (map_of kvs ''description'')"
    "details_typed (map_of kvs ''details'')" "actions_typed (map_of kvs ''actions'')"
    by (simp_all add: KenerPayload_typed_def)
  have pa: "pickAction p = Inr (JStr (string_or (get_prop (first_action p) ''text'') ''Open''),
                            JStr (string_or (get_prop (first_action p) ''url'') []))"
    using pickAction_typed [OF p f(9)] .
  have det: "nullish_else (get_prop p ''details'') (JObj []) = details_of p"
    using f(8) p
    by (auto simp: details_typed_def nullish_else_def details_of_def
        split: option.splits jsval.splits)
  have dt: "string_or_absent (get_prop (details_of p) ''metric'')"
     "value_or_absent (get_prop (details_of p) ''current_value'')"
     "value_or_absent (get_prop (details_of p) ''threshold'')"
    using f(8) p
    by (auto simp: details_typed_def details_of_def string_or_absent_def value_or_absent_def
        split: option.splits jsval.splits)
  show ?thesis
    unfolding normalize_def pa det Let_def documented_defaults_def
    using f(1-7) dt p
    by (simp add: or_else_string nullish_value)
qed

lemma documented_defaults_typed:
  assumes "KenerPayload_typed p"
  shows "NormalizedAlert_typed (documented_defaults now p)"
proof -
  from assms obtain kvs where p: "p = JObj kvs"
    by (auto simp: KenerPayload_typed_def split: jsval.splits)
  from assms p have d: "details_typed (map_of kvs ''details'')"
    by (simp add: KenerPayload_typed_def)
  have "is_value_or_null (value_or_null (get_prop (details_of p) ''current_value''))"
       "is_value_or_null (value_or_null (get_prop (details_of p) ''threshold''))"
    using d p
    by (auto simp: details_typed_def details_of_def value_or_absent_def value_or_null_def
        is_value_or_null_def split: option.splits jsval.splits)
  then show ?thesis
    by (simp add: NormalizedAlert_typed_def documented_defaults_def is_string_def)
qed









subsection \<open>The two example alerts, rendered\<close>

lemma sample_alert_lines:
  "telegramLines sample_runtime sample_alert = Inr
    [''<b>'' @ glyph_triggered @ '' &lt;script&gt;</b>'', [], ''a &amp; b'', [],
     glyph_critical @ '' <b>Severity:</b> <code>critical</code>'',
     ''<b>Status:</b> <code>TRIGGERED</code>'',
     ''<b>Source:</b> <code>Kener</code>'',
     ''<b>Current:</b> <code>5</code>'',
     ''<b>Time:</b> <code>2 Jan 2024, 03:04 UTC</code>'',
     [CHR 0x0A] @ ''<a href='' @ [CHR 0x22] @ ''http://x/?a&gt;b'' @ [CHR 0x22] @ ''>Open</a>'']"
  by (simp add: sample_alert_def telegramLines_def title_line_def description_lines_def
      severity_line_def status_line_def source_line_def metric_line_def current_line_def
      threshold_line_def time_line_def link_line_def markup_line_def escapeHtml_def or_else_def
      replaceAll_def statusEmoji_def severityEmoji_def formatTime_def new_Date_def
      Date_toLocaleString_def sample_runtime_def glyph_triggered_def glyph_critical_def)

lemma bare_alert_lines:
  "telegramLines sample_runtime bare_alert = Inr
    [''<b>'' @ glyph_other @ '' Alert</b>'', [],
     glyph_fine @ '' <b>Severity:</b> <code>unknown</code>'',
     ''<b>Status:</b> <code>UNKNOWN</code>'',
     ''<b>Time:</b> <code>Invalid Date UTC</code>'']"
  by (simp add: bare_alert_def telegramLines_def title_line_def description_lines_def
      severity_line_def status_line_def source_line_def metric_line_def current_line_def
      threshold_line_def time_line_def link_line_def markup_line_def escapeHtml_def or_else_def
      replaceAll_def statusEmoji_def severityEmoji_def formatTime_def new_Date_def
      Date_toLocaleString_def sample_runtime_def glyph_other_def glyph_fine_def)

subsection \<open>Escaping\<close>

lemma replaceAll_append: "replaceAll c r (a @ b) = replaceAll c r a @ replaceAll c r b"
  by (simp add: replaceAll_def)

lemma replaceAll_concat:
  "replaceAll c r (concat (map f s)) = concat (map (\<lambda>x. replaceAll c r (f x)) s)"
  by (induction s) (simp_all add: replaceAll_append, simp add: replaceAll_def)

lemma escape_single_pass:
  "replaceAll (CHR ''>'') ''&gt;'' (replaceAll (CHR ''<'') ''&lt;'' (replaceAll (CHR ''&'') ''&amp;'' t))
     = concat (map escape_char t)"
proof -
  have "replaceAll (CHR ''&'') ''&amp;'' t
          = concat (map (\<lambda>x. if x = CHR ''&'' then ''&amp;'' else [x]) t)"
    by (simp add: replaceAll_def)
  then show ?thesis
    by (simp add: replaceAll_concat) (rule arg_cong [where f = concat], rule map_cong, simp,
        simp add: replaceAll_def escape_char_def)
qed

lemma html_safe_escape: "html_safe (concat (map escape_char t))"
  by (induction t) (simp_all add: escape_char_def)

lemma escapeHtml_string: "escapeHtml (JStr t) = Inr (concat (map escape_char t))"
  by (simp add: escapeHtml_def or_else_def escape_single_pass)

lemma escapeHtml_result:
  assumes "escapeHtml v = Inr e"
  shows "\<exists>t. e = concat (map escape_char t)"
proof (cases "or_else (Some v) (JStr [])")
  case (JStr t)
  with assms show ?thesis by (auto simp: escapeHtml_def escape_single_pass)
qed (use assms in \<open>simp_all add: escapeHtml_def\<close>)

lemma escapeHtml_safe: "escapeHtml v = Inr e \<Longrightarrow> html_safe e"
  using escapeHtml_result html_safe_escape by blast

subsection \<open>Lines of the message\<close>

lemma escaped_no_lt: "CHR ''<'' \<notin> set (concat (map escape_char t))"
  by (induction t) (simp_all add: escape_char_def)

lemma escapeHtml_no_lt: "escapeHtml v = Inr e \<Longrightarrow> CHR ''<'' \<notin> set e"
  using escapeHtml_result escaped_no_lt by blast

lemma collect_parts: "collect ps = Inr ls \<Longrightarrow> p \<in> set ps \<Longrightarrow> \<exists>l. p = Inr l"
proof (induction ps arbitrary: ls rule: collect.induct)
  case 1
  then show ?case by simp
next
  case (2 e ps)
  then show ?case by simp
next
  case (3 l ps)
  then show ?case by (auto split: sum.splits)
qed

lemma collect_member:
  "collect ps = Inr ls \<Longrightarrow> Inr l \<in> set ps \<Longrightarrow> x \<in> set l \<Longrightarrow> x \<in> set ls"
proof (induction ps arbitrary: ls rule: collect.induct)
  case 1
  then show ?case by simp
next
  case (2 e ps)
  then show ?case by simp
next
  case (3 l' ps)
  then show ?case by (auto split: sum.splits)
qed

lemma collect_total:
  "(\<And>p. p \<in> set ps \<Longrightarrow> \<exists>l. p = Inr l) \<Longrightarrow> \<exists>ls. collect ps = Inr ls"
proof (induction ps)
  case Nil
  then show ?case by simp
next
  case (Cons p ps)
  then obtain l where "p = Inr l" by auto
  moreover from Cons obtain r where "collect ps = Inr r" by auto
  ultimately show ?case by simp
qed

lemma line_in_message: "l \<in> set ls \<Longrightarrow> sublist l (join_lines ls)"
proof (induction ls rule: join_lines.induct)
  case 1
  then show ?case by simp
next
  case (2 x)
  then show ?case by simp
next
  case (3 x v va)
  show ?case
  proof (cases "l = x")
    case True
    then show ?thesis by simp
  next
    case False
    with 3 have "sublist l (join_lines (v # va))" by simp
    then obtain ps ss where "join_lines (v # va) = ps @ l @ ss"
      by (auto simp: sublist_def)
    then have "join_lines (x # v # va) = (x @ [CHR 0x0A] @ ps) @ l @ ss" by simp
    then show ?thesis unfolding sublist_def by blast
  qed
qed

lemma sublist_trans': "sublist a b \<Longrightarrow> sublist b c \<Longrightarrow> sublist a c"
  unfolding sublist_def by (metis append.assoc)

lemma label_in_message:
  assumes "telegramLines rt k = Inr ls" "buildTelegramMessage rt k = Inr msg"
    and "Inr l \<in> set [ title_line rt k, description_lines k, Inr [[]], severity_line k,
        status_line k, source_line k, metric_line k, current_line rt k, threshold_line rt k,
        time_line rt k, link_line k ]"
    and "x \<in> set l" "sublist lab x"
  shows "sublist lab msg"
proof -
  have "x \<in> set ls"
    using collect_member [OF assms(1) [unfolded telegramLines_def] assms(3) assms(4)] .
  then have "sublist x (join_lines ls)" by (rule line_in_message)
  moreover have "msg = join_lines ls"
    using assms(1,2) by (simp add: buildTelegramMessage_def)
  ultimately show ?thesis using assms(5) sublist_trans' by blast
qed

lemma markup_line_sublist:
  assumes "markup_line pre esc suf = Inr l" "sublist lab pre"
  shows "\<exists>x\<in>set l. sublist lab x"
proof -
  from assms(1) obtain s where l: "l = [pre @ s @ suf]"
    by (auto simp: markup_line_def split: sum.splits)
  from assms(2) obtain a b where "pre = a @ lab @ b" by (auto simp: sublist_def)
  then have "pre @ s @ suf = a @ lab @ (b @ s @ suf)" by simp
  then have "sublist lab (pre @ s @ suf)" unfolding sublist_def by blast
  with l show ?thesis by simp
qed

lemma normalize_fields:
  assumes "normalize rt now p = Inr k"
  shows "alertName k = or_else (get_prop p ''alert_name'') (JStr ''Alert'')"
    "severity k = or_else (get_prop p ''severity'') (JStr ''unknown'')"
    "status k = or_else (get_prop p ''status'') (JStr ''UNKNOWN'')"
    "source k = or_else (get_prop p ''source'') (JStr ''Kener'')"
    "timestamp k = or_else (get_prop p ''timestamp'') (JStr now)"
    "actionText k = or_else (get_prop (first_action p) ''text'') (JStr ''Open'')"
proof -
  have oc: "opt_chain (case get_prop p ''actions'' of
                   Some (JArr (x # xs)) \<Rightarrow> Some x
                 | _ \<Rightarrow> None) ''text'' = get_prop (first_action p) ''text''"
    by (auto simp: first_action_def opt_chain_Some split: option.splits jsval.splits list.splits)
  show "alertName k = or_else (get_prop p ''alert_name'') (JStr ''Alert'')"
    "severity k = or_else (get_prop p ''severity'') (JStr ''unknown'')"
    "status k = or_else (get_prop p ''status'') (JStr ''UNKNOWN'')"
    "source k = or_else (get_prop p ''source'') (JStr ''Kener'')"
    "timestamp k = or_else (get_prop p ''timestamp'') (JStr now)"
    "actionText k = or_else (get_prop (first_action p) ''text'') (JStr ''Open'')"
    using assms oc
    by (auto simp: normalize_def pickAction_def Let_def split: sum.splits if_splits)
qed

lemma or_else_truthy: "truthy d \<Longrightarrow> truthy (or_else x d)"
  by (simp add: or_else_def split: option.splits)

lemma or_else_falsy: "falsy_opt x \<Longrightarrow> or_else x d = d"
  by (simp add: or_else_def falsy_opt_def split: option.splits)

lemma truthy_not_empty: "truthy v \<Longrightarrow> v \<noteq> JStr []"
  by auto

lemma typed_alert_renders:
  assumes "NormalizedAlert_typed k"
  shows "\<exists>ls. telegramLines rt k = Inr ls"
  unfolding telegramLines_def
proof (rule collect_total)
  fix p
  assume "p \<in> set [ title_line rt k, description_lines k, Inr [[]], severity_line k,
        status_line k, source_line k, metric_line k, current_line rt k, threshold_line rt k,
        time_line rt k, link_line k ]"
  moreover have "\<exists>l. title_line rt k = Inr l"
    using assms
    by (auto simp: NormalizedAlert_typed_def is_string_def title_line_def markup_line_def
        escapeHtml_string split: jsval.splits)
  moreover have "\<exists>l. description_lines k = Inr l"
    by (simp add: description_lines_def escapeHtml_string)
  moreover have "\<exists>l. severity_line k = Inr l" "\<exists>l. status_line k = Inr l"
      "\<exists>l. source_line k = Inr l"
    using assms
    by (auto simp: NormalizedAlert_typed_def is_string_def severity_line_def status_line_def
        source_line_def markup_line_def escapeHtml_string split: jsval.splits)
  moreover have "\<exists>l. metric_line k = Inr l"
    by (simp add: metric_line_def markup_line_def escapeHtml_string)
  moreover have "\<exists>l. current_line rt k = Inr l" "\<exists>l. threshold_line rt k = Inr l"
    using assms
    by (auto simp: NormalizedAlert_typed_def is_value_or_null_def current_line_def
        threshold_line_def markup_line_def escapeHtml_string split: jsval.splits)
  moreover have "\<exists>l. time_line rt k = Inr l"
    using assms
    by (auto simp: NormalizedAlert_typed_def is_string_def time_line_def markup_line_def
        formatTime_def new_Date_def escapeHtml_string split: jsval.splits)
  moreover have "\<exists>l. link_line k = Inr l"
    using assms
    by (auto simp: NormalizedAlert_typed_def is_string_def link_line_def markup_line_def
        escapeHtml_string split: jsval.splits)
  ultimately show "\<exists>l. p = Inr l" by auto
qed

lemma skip_escaped: "c \<notin> set e \<Longrightarrow> sublist (c # L) (e @ r) \<longleftrightarrow> sublist (c # L) r"
  by (induction e) (auto simp: sublist_Cons_right)

lemma sublist_join_lines:
  assumes "CHR 0x0A \<notin> set L" "L \<noteq> []"
  shows "sublist L (join_lines ls) \<longleftrightarrow> list_ex (sublist L) ls"
proof (induction ls rule: join_lines.induct)
  case 1
  then show ?case using assms by simp
next
  case (2 l)
  then show ?case by simp
next
  case (3 l v va)
  let ?R = "join_lines (v # va)"
  have np: "\<not> prefix L (CHR 0x0A # ?R)"
    using assms by (cases L) auto
  have a: "sublist L (CHR 0x0A # ?R) \<longleftrightarrow> sublist L ?R"
    using np by (simp add: sublist_Cons_right)
  have b: "sublist L l" if "L = xs1 @ xs2" "suffix xs1 l" "prefix xs2 (CHR 0x0A # ?R)"
    for xs1 xs2
  proof (cases xs2)
    case Nil
    with that show ?thesis by auto
  next
    case (Cons y ys)
    with that(3) have "y = CHR 0x0A" by simp
    with Cons that(1) assms(1) show ?thesis by simp
  qed
  have "sublist L (l @ CHR 0x0A # ?R) \<longleftrightarrow> sublist L l \<or> sublist L ?R"
    unfolding sublist_append a using b by blast
  with 3 show ?case by simp
qed

lemma markup_line_shape:
  assumes "markup_line pre (escapeHtml v) suf = Inr l"
  shows "\<exists>e. escapeHtml v = Inr e \<and> CHR ''<'' \<notin> set e \<and> l = [pre @ e @ suf]"
  using assms escapeHtml_no_lt
  by (auto simp: markup_line_def split: sum.splits)

lemmas sub_simps = sublist_Cons_right skip_escaped

lemma severityEmoji_cases:
  "severityEmoji v = glyph_critical \<or> severityEmoji v = glyph_warning \<or>
   severityEmoji v = glyph_fine"
  by (simp add: severityEmoji_def)

lemma statusEmoji_cases:
  "statusEmoji v = glyph_triggered \<or> statusEmoji v = glyph_resolved \<or>
   statusEmoji v = glyph_other"
  by (simp add: statusEmoji_def)

lemma status_line_labels:
  assumes "status_line k = Inr l"
  shows "\<not> list_ex (sublist ''<b>Source:</b>'') l \<and>
     \<not> list_ex (sublist ''<b>Monitor:</b>'') l \<and>
     \<not> list_ex (sublist ''<b>Current:</b>'') l \<and>
     \<not> list_ex (sublist ''<b>Threshold:</b>'') l \<and>
     \<not> list_ex (sublist ''<a href='') l"
proof -
  obtain e where e: "CHR ''<'' \<notin> set e" and l: "l = [''<b>Status:</b> <code>'' @ e @ ''</code>'']"
    using markup_line_shape [OF assms [unfolded status_line_def]] by blast
  show ?thesis
    by (simp add: l sub_simps e)
qed

lemma description_lines_labels:
  assumes "description_lines k = Inr l"
  shows "\<not> list_ex (sublist ''<b>Source:</b>'') l \<and>
     \<not> list_ex (sublist ''<b>Monitor:</b>'') l \<and>
     \<not> list_ex (sublist ''<b>Current:</b>'') l \<and>
     \<not> list_ex (sublist ''<b>Threshold:</b>'') l \<and>
     \<not> list_ex (sublist ''<a href='') l"
proof -
  have "l = [] \<or> (\<exists>d. CHR ''<'' \<notin> set d \<and> l = [[], d @ []])"
    using assms escapeHtml_no_lt
    by (auto simp: description_lines_def split: if_splits sum.splits)
  then show ?thesis
    by (elim disjE conjE exE)
       (simp_all only: list_ex_Nil_iff list_ex_Cons_iff sublist_code skip_escaped simp_thms)
qed

lemma severity_line_labels:
  assumes "severity_line k = Inr l"
  shows "\<not> list_ex (sublist ''<b>Source:</b>'') l \<and>
     \<not> list_ex (sublist ''<b>Monitor:</b>'') l \<and>
     \<not> list_ex (sublist ''<b>Current:</b>'') l \<and>
     \<not> list_ex (sublist ''<b>Threshold:</b>'') l \<and>
     \<not> list_ex (sublist ''<a href='') l"
proof -
  obtain e where e: "CHR ''<'' \<notin> set e"
    and l: "l = [(severityEmoji (severity k) @ '' <b>Severity:</b> <code>'') @ e @ ''</code>'']"
    using markup_line_shape [OF assms [unfolded severity_line_def]] by blast
  from severityEmoji_cases [of "severity k"] show ?thesis
    by (elim disjE)
      (simp_all add: l sub_simps e glyph_critical_def glyph_warning_def glyph_fine_def)
qed

lemma title_line_labels:
  assumes "title_line rt k = Inr l"
  shows "\<not> list_ex (sublist ''<b>Source:</b>'') l \<and>
     \<not> list_ex (sublist ''<b>Monitor:</b>'') l \<and>
     \<not> list_ex (sublist ''<b>Current:</b>'') l \<and>
     \<not> list_ex (sublist ''<b>Threshold:</b>'') l \<and>
     \<not> list_ex (sublist ''<a href='') l"
proof -
  from assms obtain n where
    m: "markup_line ''<b>'' (escapeHtml (JStr (statusEmoji (status k) @ '' '' @ n))) ''</b>'' = Inr l"
    by (auto simp: title_line_def split: sum.splits)
  define e where "e = concat (map escape_char ('' '' @ n))"
  have e: "CHR ''<'' \<notin> set e" unfolding e_def by (rule escaped_no_lt)
  have l: "l = [''<b>'' @ concat (map escape_char (statusEmoji (status k))) @ e @ ''</b>'']"
    using m by (simp add: markup_line_def escapeHtml_string e_def)
  from statusEmoji_cases [of "status k"] show ?thesis
    by (elim disjE)
      (simp_all add: l sub_simps e glyph_triggered_def glyph_resolved_def glyph_other_def
        escape_char_def)
qed

lemma link_line_labels:
  assumes "link_line k = Inr l"
  shows "\<not> list_ex (sublist ''<b>Source:</b>'') l \<and>
     \<not> list_ex (sublist ''<b>Monitor:</b>'') l \<and>
     \<not> list_ex (sublist ''<b>Current:</b>'') l \<and>
     \<not> list_ex (sublist ''<b>Threshold:</b>'') l \<and>
     (list_ex (sublist ''<a href='') l \<longleftrightarrow> truthy (actionUrl k))"
proof -
  have "(\<not> truthy (actionUrl k) \<and> l = []) \<or>
        (truthy (actionUrl k) \<and> (\<exists>u e. CHR ''<'' \<notin> set u \<and> CHR ''<'' \<notin> set e \<and>
           l = [(([CHR 0x0A] @ ''<a href='' @ [CHR 0x22]) @ u @ ([CHR 0x22] @ ''>'')) @ e @ ''</a>'']))"
  proof (cases "truthy (actionUrl k)")
    case True
    with assms obtain u where u: "escapeHtml (actionUrl k) = Inr u"
      and m: "markup_line (([CHR 0x0A] @ ''<a href='' @ [CHR 0x22]) @ u @ ([CHR 0x22] @ ''>''))
              (escapeHtml (actionText k)) ''</a>'' = Inr l"
      by (auto simp: link_line_def split: sum.splits)
    have nu: "CHR ''<'' \<notin> set u" using u by (rule escapeHtml_no_lt)
    from markup_line_shape [OF m] nu True show ?thesis by blast
  next
    case False
    with assms show ?thesis by (simp add: link_line_def)
  qed
  then show ?thesis
    by (elim disjE conjE exE) (simp_all add: sub_simps)
qed

lemma time_line_labels:
  assumes "time_line rt k = Inr l"
  shows "\<not> list_ex (sublist ''<b>Source:</b>'') l \<and>
     \<not> list_ex (sublist ''<b>Monitor:</b>'') l \<and>
     \<not> list_ex (sublist ''<b>Current:</b>'') l \<and>
     \<not> list_ex (sublist ''<b>Threshold:</b>'') l \<and>
     \<not> list_ex (sublist ''<a href='') l"
proof -
  have "(\<not> (truthy (timestamp k)) \<and> l = []) \<or>
        ((truthy (timestamp k)) \<and> (\<exists>e. CHR ''<'' \<notin> set e \<and> l = [''<b>Time:</b> <code>'' @ e @ ''</code>'']))"
    using assms markup_line_shape [of "''<b>Time:</b> <code>''" _ "''</code>''" l]
    unfolding time_line_def by (auto split: if_splits)
  then show ?thesis
    by (elim disjE conjE exE) (simp_all add: sub_simps)
qed

lemma source_line_labels:
  assumes "source_line k = Inr l"
  shows "(list_ex (sublist ''<b>Source:</b>'') l \<longleftrightarrow> truthy (source k)) \<and>
     \<not> list_ex (sublist ''<b>Monitor:</b>'') l \<and>
     \<not> list_ex (sublist ''<b>Current:</b>'') l \<and>
     \<not> list_ex (sublist ''<b>Threshold:</b>'') l \<and>
     \<not> list_ex (sublist ''<a href='') l"
proof -
  have "(\<not> (truthy (source k)) \<and> l = []) \<or>
        ((truthy (source k)) \<and> (\<exists>e. CHR ''<'' \<notin> set e \<and> l = [''<b>Source:</b> <code>'' @ e @ ''</code>'']))"
    using assms markup_line_shape [of "''<b>Source:</b> <code>''" _ "''</code>''" l]
    unfolding source_line_def by (auto split: if_splits)
  then show ?thesis
    by (elim disjE conjE exE) (simp_all add: sub_simps)
qed

lemma metric_line_labels:
  assumes "metric_line k = Inr l"
  shows "\<not> list_ex (sublist ''<b>Source:</b>'') l \<and>
     (list_ex (sublist ''<b>Monitor:</b>'') l \<longleftrightarrow> metric k \<noteq> []) \<and>
     \<not> list_ex (sublist ''<b>Current:</b>'') l \<and>
     \<not> list_ex (sublist ''<b>Threshold:</b>'') l \<and>
     \<not> list_ex (sublist ''<a href='') l"
proof -
  have "(\<not> (metric k \<noteq> []) \<and> l = []) \<or>
        ((metric k \<noteq> []) \<and> (\<exists>e. CHR ''<'' \<notin> set e \<and> l = [''<b>Monitor:</b> <code>'' @ e @ ''</code>'']))"
    using assms markup_line_shape [of "''<b>Monitor:</b> <code>''" _ "''</code>''" l]
    unfolding metric_line_def by (auto split: if_splits)
  then show ?thesis
    by (elim disjE conjE exE) (simp_all add: sub_simps)
qed

lemma current_line_labels:
  assumes "current_line rt k = Inr l"
  shows "\<not> list_ex (sublist ''<b>Source:</b>'') l \<and>
     \<not> list_ex (sublist ''<b>Monitor:</b>'') l \<and>
     (list_ex (sublist ''<b>Current:</b>'') l \<longleftrightarrow> currentValue k \<noteq> JNull) \<and>
     \<not> list_ex (sublist ''<b>Threshold:</b>'') l \<and>
     \<not> list_ex (sublist ''<a href='') l"
proof -
  have "(\<not> (currentValue k \<noteq> JNull) \<and> l = []) \<or>
        ((currentValue k \<noteq> JNull) \<and> (\<exists>e. CHR ''<'' \<notin> set e \<and> l = [''<b>Current:</b> <code>'' @ e @ ''</code>'']))"
    using assms markup_line_shape [of "''<b>Current:</b> <code>''" _ "''</code>''" l]
    unfolding current_line_def by (auto split: if_splits sum.splits)
  then show ?thesis
    by (elim disjE conjE exE) (simp_all add: sub_simps)
qed

lemma threshold_line_labels:
  assumes "threshold_line rt k = Inr l"
  shows "\<not> list_ex (sublist ''<b>Source:</b>'') l \<and>
     \<not> list_ex (sublist ''<b>Monitor:</b>'') l \<and>
     \<not> list_ex (sublist ''<b>Current:</b>'') l \<and>
     (list_ex (sublist ''<b>Threshold:</b>'') l \<longleftrightarrow> threshold k \<noteq> JNull) \<and>
     \<not> list_ex (sublist ''<a href='') l"
proof -
  have "(\<not> (threshold k \<noteq> JNull) \<and> l = []) \<or>
        ((threshold k \<noteq> JNull) \<and> (\<exists>e. CHR ''<'' \<notin> set e \<and> l = [''<b>Threshold:</b> <code>'' @ e @ ''</code>'']))"
    using assms markup_line_shape [of "''<b>Threshold:</b> <code>''" _ "''</code>''" l]
    unfolding threshold_line_def by (auto split: if_splits sum.splits)
  then show ?thesis
    by (elim disjE conjE exE) (simp_all add: sub_simps)
qed

lemma message_labels_iff:
  assumes b: "buildTelegramMessage rt k = Inr msg"
  shows "(sublist ''<b>Source:</b>'' msg \<longleftrightarrow> truthy (source k)) \<and>
    (sublist ''<b>Monitor:</b>'' msg \<longleftrightarrow> metric k \<noteq> []) \<and>
    (sublist ''<b>Current:</b>'' msg \<longleftrightarrow> currentValue k \<noteq> JNull) \<and>
    (sublist ''<b>Threshold:</b>'' msg \<longleftrightarrow> threshold k \<noteq> JNull) \<and>
    (sublist ''<a href='' msg \<longleftrightarrow> truthy (actionUrl k))"
proof -
  from b obtain ls where a: "telegramLines rt k = Inr ls" and msg: "msg = join_lines ls"
    by (auto simp: buildTelegramMessage_def split: sum.splits)
  obtain l1 l2 l4 l5 l6 l7 l8 l9 l10 l11 where parts:
    "title_line rt k = Inr l1" "description_lines k = Inr l2" "severity_line k = Inr l4"
    "status_line k = Inr l5" "source_line k = Inr l6" "metric_line k = Inr l7"
    "current_line rt k = Inr l8" "threshold_line rt k = Inr l9" "time_line rt k = Inr l10"
    "link_line k = Inr l11"
    using collect_parts [OF a [unfolded telegramLines_def]]
    by (metis list.set_intros)
  have ls: "ls = l1 @ l2 @ [[]] @ l4 @ l5 @ l6 @ l7 @ l8 @ l9 @ l10 @ l11"
    using a unfolding telegramLines_def parts by simp
  note facts = title_line_labels [OF parts(1)] description_lines_labels [OF parts(2)]
    severity_line_labels [OF parts(3)] status_line_labels [OF parts(4)]
    source_line_labels [OF parts(5)] metric_line_labels [OF parts(6)]
    current_line_labels [OF parts(7)] threshold_line_labels [OF parts(8)]
    time_line_labels [OF parts(9)] link_line_labels [OF parts(10)]
  have j: "sublist ''<b>Source:</b>'' (join_lines ls) = list_ex (sublist ''<b>Source:</b>'') ls"
    "sublist ''<b>Monitor:</b>'' (join_lines ls) = list_ex (sublist ''<b>Monitor:</b>'') ls"
    "sublist ''<b>Current:</b>'' (join_lines ls) = list_ex (sublist ''<b>Current:</b>'') ls"
    "sublist ''<b>Threshold:</b>'' (join_lines ls) = list_ex (sublist ''<b>Threshold:</b>'') ls"
    "sublist ''<a href='' (join_lines ls) = list_ex (sublist ''<a href='') ls"
    by (simp_all add: sublist_join_lines)
  have "list_ex (sublist ''<b>Source:</b>'') ls = truthy (source k)"
    "list_ex (sublist ''<b>Monitor:</b>'') ls = (metric k \<noteq> [])"
    "list_ex (sublist ''<b>Current:</b>'') ls = (currentValue k \<noteq> JNull)"
    "list_ex (sublist ''<b>Threshold:</b>'') ls = (threshold k \<noteq> JNull)"
    "list_ex (sublist ''<a href='') ls = truthy (actionUrl k)"
    unfolding ls using facts by simp_all
  then show ?thesis
    unfolding msg j by simp
qed

subsection \<open>The message, piece by piece\<close>

lemma join_lines_Cons:
  "join_lines (l # ls) = l @ concat (map ((@) [CHR 0x0A]) ls)"
  by (induction ls arbitrary: l) simp_all

lemma render_append: "render (a @ b) = render a @ render b"
  by (simp add: render_def)

lemma escapeHtml_text_of:
  assumes "escapeHtml v = Inr e"
  shows "e = escape_text (text_of v)"
proof (cases "truthy v")
  case True
  with assms show ?thesis
    by (cases v)
       (simp_all add: escapeHtml_def or_else_def escape_single_pass escape_text_def text_of_def)
next
  case False
  then have "or_else (Some v) (JStr []) = JStr []" by (simp add: or_else_def)
  moreover from False have "text_of v = []"
    by (cases v) (simp_all add: text_of_def)
  ultimately show ?thesis
    using assms by (simp add: escapeHtml_def escape_single_pass escape_text_def)
qed

lemma markup_line_exact:
  "markup_line pre (escapeHtml v) suf = Inr l \<Longrightarrow> l = [pre @ escape_text (text_of v) @ suf]"
  by (auto simp: markup_line_def split: sum.splits dest: escapeHtml_text_of)

lemma title_line_pieces:
  assumes "title_line rt k = Inr l"
  shows "l = [render (title_pieces rt k)]"
proof -
  from assms obtain n where n: "ToString rt (alertName k) = Inr n"
    and m: "markup_line ''<b>'' (escapeHtml (JStr (statusEmoji (status k) @ '' '' @ n))) ''</b>''
              = Inr l"
    by (auto simp: title_line_def split: sum.splits)
  from n have "string_of rt (alertName k) = n" by (simp add: string_of_def)
  with markup_line_exact [OF m] show ?thesis
    by (simp add: title_pieces_def render_def text_of_def)
qed

lemma description_lines_pieces:
  assumes "description_lines k = Inr l"
  shows "concat (map ((@) [CHR 0x0A]) l) = render (description_pieces k)"
  using assms
  by (auto simp: description_lines_def description_pieces_def render_def text_of_def
      split: if_splits sum.splits dest: escapeHtml_text_of)

lemma severity_line_pieces:
  assumes "severity_line k = Inr l"
  shows "concat (map ((@) [CHR 0x0A]) l) = render (severity_pieces k)"
  using markup_line_exact [OF assms [unfolded severity_line_def]]
  by (simp add: severity_pieces_def render_def)

lemma status_line_pieces:
  assumes "status_line k = Inr l"
  shows "concat (map ((@) [CHR 0x0A]) l) = render (status_pieces k)"
  using markup_line_exact [OF assms [unfolded status_line_def]]
  by (simp add: status_pieces_def render_def)

lemma source_line_pieces:
  assumes "source_line k = Inr l"
  shows "concat (map ((@) [CHR 0x0A]) l) = render (source_pieces k)"
proof (cases "truthy (source k)")
  case True
  with assms have "markup_line ''<b>Source:</b> <code>'' (escapeHtml (source k)) ''</code>'' = Inr l"
    by (simp add: source_line_def)
  from markup_line_exact [OF this] True show ?thesis
    by (simp add: source_pieces_def render_def)
next
  case False
  with assms show ?thesis by (simp add: source_line_def source_pieces_def render_def)
qed

lemma metric_line_pieces:
  assumes "metric_line k = Inr l"
  shows "concat (map ((@) [CHR 0x0A]) l) = render (metric_pieces k)"
proof (cases "metric k \<noteq> []")
  case True
  with assms have "markup_line ''<b>Monitor:</b> <code>'' (escapeHtml (JStr (metric k))) ''</code>''
      = Inr l"
    by (simp add: metric_line_def)
  from markup_line_exact [OF this] True show ?thesis
    by (simp add: metric_pieces_def render_def text_of_def)
next
  case False
  with assms show ?thesis by (simp add: metric_line_def metric_pieces_def render_def)
qed

lemma current_line_pieces:
  assumes "current_line rt k = Inr l"
  shows "concat (map ((@) [CHR 0x0A]) l) = render (current_pieces rt k)"
proof (cases "currentValue k \<noteq> JNull")
  case True
  with assms obtain s where s: "ToString rt (currentValue k) = Inr s"
    and m: "markup_line ''<b>Current:</b> <code>'' (escapeHtml (JStr s)) ''</code>'' = Inr l"
    by (auto simp: current_line_def split: sum.splits)
  from s have "string_of rt (currentValue k) = s" by (simp add: string_of_def)
  with markup_line_exact [OF m] True show ?thesis
    by (simp add: current_pieces_def render_def text_of_def)
next
  case False
  with assms show ?thesis by (simp add: current_line_def current_pieces_def render_def)
qed

lemma threshold_line_pieces:
  assumes "threshold_line rt k = Inr l"
  shows "concat (map ((@) [CHR 0x0A]) l) = render (threshold_pieces rt k)"
proof (cases "threshold k \<noteq> JNull")
  case True
  with assms obtain s where s: "ToString rt (threshold k) = Inr s"
    and m: "markup_line ''<b>Threshold:</b> <code>'' (escapeHtml (JStr s)) ''</code>'' = Inr l"
    by (auto simp: threshold_line_def split: sum.splits)
  from s have "string_of rt (threshold k) = s" by (simp add: string_of_def)
  with markup_line_exact [OF m] True show ?thesis
    by (simp add: threshold_pieces_def render_def text_of_def)
next
  case False
  with assms show ?thesis by (simp add: threshold_line_def threshold_pieces_def render_def)
qed

lemma time_line_pieces:
  assumes "time_line rt k = Inr l"
  shows "concat (map ((@) [CHR 0x0A]) l) = render (time_pieces rt k)"
proof (cases "truthy (timestamp k)")
  case True
  with assms have "markup_line ''<b>Time:</b> <code>''
      (escapeHtml (formatTime rt (timestamp k))) ''</code>'' = Inr l"
    by (simp add: time_line_def)
  from markup_line_exact [OF this] True show ?thesis
    by (simp add: time_pieces_def render_def)
next
  case False
  with assms show ?thesis by (simp add: time_line_def time_pieces_def render_def)
qed

lemma link_line_pieces:
  assumes "link_line k = Inr l"
  shows "concat (map ((@) [CHR 0x0A]) l) = render (link_pieces k)"
proof (cases "truthy (actionUrl k)")
  case True
  with assms obtain u where u: "escapeHtml (actionUrl k) = Inr u"
    and m: "markup_line (([CHR 0x0A] @ ''<a href='' @ [CHR 0x22]) @ u @ ([CHR 0x22] @ ''>''))
              (escapeHtml (actionText k)) ''</a>'' = Inr l"
    by (auto simp: link_line_def split: sum.splits)
  from escapeHtml_text_of [OF u] markup_line_exact [OF m] True show ?thesis
    by (simp add: link_pieces_def render_def)
next
  case False
  with assms show ?thesis by (simp add: link_line_def link_pieces_def render_def)
qed

lemma message_is_pieces:
  assumes b: "buildTelegramMessage rt k = Inr msg"
  shows "msg = render (message_pieces rt k)"
proof -
  from b obtain ls where a: "telegramLines rt k = Inr ls" and msg: "msg = join_lines ls"
    by (auto simp: buildTelegramMessage_def split: sum.splits)
  obtain l1 l2 l4 l5 l6 l7 l8 l9 l10 l11 where parts:
    "title_line rt k = Inr l1" "description_lines k = Inr l2" "severity_line k = Inr l4"
    "status_line k = Inr l5" "source_line k = Inr l6" "metric_line k = Inr l7"
    "current_line rt k = Inr l8" "threshold_line rt k = Inr l9" "time_line rt k = Inr l10"
    "link_line k = Inr l11"
    using collect_parts [OF a [unfolded telegramLines_def]]
    by (metis list.set_intros)
  have ls: "ls = l1 @ l2 @ [[]] @ l4 @ l5 @ l6 @ l7 @ l8 @ l9 @ l10 @ l11"
    using a unfolding telegramLines_def parts by simp
  have l1: "l1 = [render (title_pieces rt k)]"
    using parts(1) by (rule title_line_pieces)
  have "msg = render (title_pieces rt k) @
      concat (map ((@) [CHR 0x0A]) (l2 @ [[]] @ l4 @ l5 @ l6 @ l7 @ l8 @ l9 @ l10 @ l11))"
    unfolding msg ls l1 by (simp only: append_Cons append_Nil join_lines_Cons)
  also have "concat (map ((@) [CHR 0x0A]) (l2 @ [[]] @ l4 @ l5 @ l6 @ l7 @ l8 @ l9 @ l10 @ l11))
      = render (description_pieces k) @ render [Markup [CHR 0x0A]] @ render (severity_pieces k) @
        render (status_pieces k) @ render (source_pieces k) @ render (metric_pieces k) @
        render (current_pieces rt k) @ render (threshold_pieces rt k) @
        render (time_pieces rt k) @ render (link_pieces k)"
    unfolding map_append concat_append
      description_lines_pieces [OF parts(2)] severity_line_pieces [OF parts(3)]
      status_line_pieces [OF parts(4)] source_line_pieces [OF parts(5)]
      metric_line_pieces [OF parts(6)] current_line_pieces [OF parts(7)]
      threshold_line_pieces [OF parts(8)] time_line_pieces [OF parts(9)]
      link_line_pieces [OF parts(10)]
    by (simp add: render_def)
  finally show ?thesis
    by (simp only: message_pieces_def render_append)
qed

lemma escaped_piece_ok: "piece_ok (Escaped (escape_text t))"
  by (simp add: escape_text_def html_safe_escape)

lemma html_safe_escape_text: "html_safe (escape_text t)"
  by (simp add: escape_text_def html_safe_escape)

lemma severity_pieces_ok: "list_all piece_ok (severity_pieces k)"
  using severityEmoji_cases [of "severity k"]
  by (elim disjE) (simp_all add: severity_pieces_def fixed_markup_def html_safe_escape_text)

lemma part_pieces_ok:
  "list_all piece_ok (title_pieces rt k)" "list_all piece_ok (description_pieces k)"
  "list_all piece_ok (status_pieces k)" "list_all piece_ok (source_pieces k)"
  "list_all piece_ok (metric_pieces k)" "list_all piece_ok (current_pieces rt k)"
  "list_all piece_ok (threshold_pieces rt k)" "list_all piece_ok (time_pieces rt k)"
  "list_all piece_ok (link_pieces k)" "list_all piece_ok [Markup [CHR 0x0A]]"
  by (simp_all add: title_pieces_def description_pieces_def status_pieces_def
      source_pieces_def metric_pieces_def current_pieces_def threshold_pieces_def
      time_pieces_def link_pieces_def fixed_markup_def html_safe_escape_text)

lemma message_pieces_ok: "list_all piece_ok (message_pieces rt k)"
  unfolding message_pieces_def
  by (simp only: list_all_append part_pieces_ok severity_pieces_ok simp_thms)

text \<open>
  C1. On a string, \<open>escapeHtml\<close> replaces \<^verbatim>\<open>&\<close> by \<^verbatim>\<open>&amp;\<close>, then \<^verbatim>\<open><\<close> by \<^verbatim>\<open>&lt;\<close>, then \<^verbatim>\<open>>\<close> by
  \<^verbatim>\<open>&gt;\<close>, which amounts to escaping each character of the input once; on any value it
  returns the escape of the value's text, and what it returns is markup-safe (no raw
  \<^verbatim>\<open><\<close> or \<^verbatim>\<open>>\<close>, every \<^verbatim>\<open>&\<close> opening an entity). Every rendered message is exactly the
  sequence of pieces of the specification's layout: the formatter's fixed markup, and,
  in their places, the escape of the alert name (with its status glyph), of the
  description, severity, status, source, metric, the two values, the time, the link URL
  and the link text. All its pieces are fixed markup or markup-safe text, so the message
  holds no raw \<^verbatim>\<open><\<close>, \<^verbatim>\<open>&\<close> or \<^verbatim>\<open>>\<close> outside the fixed markup. For an alert whose fields
  have their declared types the message is always rendered.
\<close>

theorem rendered_message_escaped:
  "escapeHtml (JStr t)
     = Inr (replaceAll (CHR ''>'') ''&gt;''
             (replaceAll (CHR ''<'') ''&lt;'' (replaceAll (CHR ''&'') ''&amp;'' t))) \<and>
   escapeHtml (JStr t) = Inr (escape_text t) \<and>
   (\<forall>v e. escapeHtml v = Inr e \<longrightarrow> e = escape_text (text_of v) \<and> html_safe e) \<and>
   (\<forall>msg. buildTelegramMessage rt k = Inr msg \<longrightarrow> msg = render (message_pieces rt k)) \<and>
   list_all piece_ok (message_pieces rt k) \<and>
   (NormalizedAlert_typed k \<longrightarrow>
      buildTelegramMessage rt k = Inr (render (message_pieces rt k)))"
proof -
  have typed: "buildTelegramMessage rt k = Inr (render (message_pieces rt k))"
    if "NormalizedAlert_typed k"
  proof -
    from typed_alert_renders [OF that, of rt] obtain msg
      where m: "buildTelegramMessage rt k = Inr msg"
      by (auto simp: buildTelegramMessage_def)
    with message_is_pieces [OF m] show ?thesis by simp
  qed
  have esc: "e = escape_text (text_of v) \<and> html_safe e" if "escapeHtml v = Inr e" for v e
    using that escapeHtml_text_of escapeHtml_safe by blast
  have def: "escapeHtml (JStr t)
     = Inr (replaceAll (CHR ''>'') ''&gt;''
             (replaceAll (CHR ''<'') ''&lt;'' (replaceAll (CHR ''&'') ''&amp;'' t)))"
    by (simp add: escapeHtml_def or_else_def)
  have one: "escapeHtml (JStr t) = Inr (escape_text t)"
    using escapeHtml_string [of t] by (simp add: escape_text_def)
  have msg: "\<forall>msg. buildTelegramMessage rt k = Inr msg \<longrightarrow> msg = render (message_pieces rt k)"
    using message_is_pieces by blast
  have all: "\<forall>v e. escapeHtml v = Inr e \<longrightarrow> e = escape_text (text_of v) \<and> html_safe e"
    using esc by blast
  have ty: "NormalizedAlert_typed k \<longrightarrow>
      buildTelegramMessage rt k = Inr (render (message_pieces rt k))"
    using typed by blast
  show ?thesis
    by (intro conjI def one all msg message_pieces_ok ty)
qed

theorem rendered_message_escaped_witness:
  "escapeHtml (JStr ''<script>&'') = Inr ''&lt;script&gt;&amp;'' \<and>
   html_safe ''&lt;script&gt;&amp;'' \<and>
   buildTelegramMessage sample_runtime sample_alert
     = Inr (render (message_pieces sample_runtime sample_alert)) \<and>
   message_pieces sample_runtime sample_alert =
     [ Markup ''<b>'', Escaped (glyph_triggered @ '' &lt;script&gt;''), Markup ''</b>'',
       Markup [CHR 0x0A], Markup [CHR 0x0A], Escaped ''a &amp; b'',
       Markup [CHR 0x0A],
       Markup [CHR 0x0A], Markup glyph_critical, Markup '' <b>Severity:</b> <code>'',
       Escaped ''critical'', Markup ''</code>'',
       Markup [CHR 0x0A], Markup ''<b>Status:</b> <code>'', Escaped ''TRIGGERED'',
       Markup ''</code>'',
       Markup [CHR 0x0A], Markup ''<b>Source:</b> <code>'', Escaped ''Kener'', Markup ''</code>'',
       Markup [CHR 0x0A], Markup ''<b>Current:</b> <code>'', Escaped ''5'', Markup ''</code>'',
       Markup [CHR 0x0A], Markup ''<b>Time:</b> <code>'', Escaped ''2 Jan 2024, 03:04 UTC'',
       Markup ''</code>'',
       Markup [CHR 0x0A], Markup ([CHR 0x0A] @ ''<a href='' @ [CHR 0x22]),
       Escaped ''http://x/?a&gt;b'', Markup ([CHR 0x22] @ ''>''), Escaped ''Open'',
       Markup ''</a>'' ]"
proof -
  note r = rendered_message_escaped [of "''<script>&''" sample_runtime sample_alert]
  have e: "escapeHtml (JStr ''<script>&'') = Inr ''&lt;script&gt;&amp;''"
    using r [THEN conjunct1] by (simp add: replaceAll_def)
  have h: "html_safe ''&lt;script&gt;&amp;''"
    using r [THEN conjunct2, THEN conjunct2, THEN conjunct1, rule_format, OF e]
    by (rule conjunct2)
  have t: "NormalizedAlert_typed sample_alert"
    by (simp add: NormalizedAlert_typed_def sample_alert_def is_string_def is_value_or_null_def)
  have b: "buildTelegramMessage sample_runtime sample_alert
     = Inr (render (message_pieces sample_runtime sample_alert))"
    using r [THEN conjunct2, THEN conjunct2, THEN conjunct2, THEN conjunct2, THEN conjunct2,
        THEN mp, OF t] .
  have p: "message_pieces sample_runtime sample_alert =
     [ Markup ''<b>'', Escaped (glyph_triggered @ '' &lt;script&gt;''), Markup ''</b>'',
       Markup [CHR 0x0A], Markup [CHR 0x0A], Escaped ''a &amp; b'',
       Markup [CHR 0x0A],
       Markup [CHR 0x0A], Markup glyph_critical, Markup '' <b>Severity:</b> <code>'',
       Escaped ''critical'', Markup ''</code>'',
       Markup [CHR 0x0A], Markup ''<b>Status:</b> <code>'', Escaped ''TRIGGERED'',
       Markup ''</code>'',
       Markup [CHR 0x0A], Markup ''<b>Source:</b> <code>'', Escaped ''Kener'', Markup ''</code>'',
       Markup [CHR 0x0A], Markup ''<b>Current:</b> <code>'', Escaped ''5'', Markup ''</code>'',
       Markup [CHR 0x0A], Markup ''<b>Time:</b> <code>'', Escaped ''2 Jan 2024, 03:04 UTC'',
       Markup ''</code>'',
       Markup [CHR 0x0A], Markup ([CHR 0x0A] @ ''<a href='' @ [CHR 0x22]),
       Escaped ''http://x/?a&gt;b'', Markup ([CHR 0x22] @ ''>''), Escaped ''Open'',
       Markup ''</a>'' ]"
    by (simp add: message_pieces_def title_pieces_def description_pieces_def
        severity_pieces_def status_pieces_def source_pieces_def metric_pieces_def
        current_pieces_def threshold_pieces_def time_pieces_def link_pieces_def
        sample_alert_def escape_text_def escape_char_def text_of_def string_of_def
        statusEmoji_def severityEmoji_def formatTime_def new_Date_def Date_toLocaleString_def
        sample_runtime_def glyph_triggered_def)
  show ?thesis
    by (intro conjI e h b p)
qed

subsection \<open>Conditional lines\<close>

text \<open>
  C8. In every rendered message the Source label occurs exactly when the source is
  truthy (for a string: non-empty), the Monitor label exactly when the metric is
  non-empty, the Current label exactly when currentValue is not null, the Threshold label
  exactly when threshold is not null, and the link anchor exactly when actionUrl is
  truthy (for a string: non-empty). The Current and Threshold lines hold the escaped
  string conversion of the stored value. A message rendered from an alert with empty
  metric, empty source, null values and empty actionUrl holds none of the five.
\<close>

theorem conditional_lines:
  assumes b: "buildTelegramMessage rt k = Inr msg"
  shows
    "(sublist ''<b>Source:</b>'' msg \<longleftrightarrow> truthy (source k)) \<and>
     (sublist ''<b>Monitor:</b>'' msg \<longleftrightarrow> metric k \<noteq> []) \<and>
     (sublist ''<b>Current:</b>'' msg \<longleftrightarrow> currentValue k \<noteq> JNull) \<and>
     (sublist ''<b>Threshold:</b>'' msg \<longleftrightarrow> threshold k \<noteq> JNull) \<and>
     (sublist ''<a href='' msg \<longleftrightarrow> truthy (actionUrl k)) \<and>
     (\<forall>s. source k = JStr s \<longrightarrow> (sublist ''<b>Source:</b>'' msg \<longleftrightarrow> s \<noteq> [])) \<and>
     (\<forall>s. actionUrl k = JStr s \<longrightarrow> (sublist ''<a href='' msg \<longleftrightarrow> s \<noteq> [])) \<and>
     (currentValue k \<noteq> JNull \<longrightarrow>
        (\<exists>s. ToString rt (currentValue k) = Inr s \<and>
             sublist (''<b>Current:</b> <code>'' @ concat (map escape_char s) @ ''</code>'') msg)) \<and>
     (threshold k \<noteq> JNull \<longrightarrow>
        (\<exists>s. ToString rt (threshold k) = Inr s \<and>
             sublist (''<b>Threshold:</b> <code>'' @ concat (map escape_char s) @ ''</code>'') msg)) \<and>
     (\<not> truthy (source k) \<and> metric k = [] \<and> currentValue k = JNull \<and> threshold k = JNull \<and>
      \<not> truthy (actionUrl k) \<longrightarrow>
        \<not> list_ex (\<lambda>lab. sublist lab msg) message_labels)"
proof -
  note iffs = message_labels_iff [OF b]
  from b obtain ls where a: "telegramLines rt k = Inr ls"
    by (auto simp: buildTelegramMessage_def split: sum.splits)
  obtain l8 l9 where parts:
    "current_line rt k = Inr l8" "threshold_line rt k = Inr l9"
    using collect_parts [OF a [unfolded telegramLines_def]]
    by (metis list.set_intros)
  have cur: "\<exists>s. ToString rt (currentValue k) = Inr s \<and>
      sublist (''<b>Current:</b> <code>'' @ concat (map escape_char s) @ ''</code>'') msg"
    if "currentValue k \<noteq> JNull"
  proof -
    from that parts(1) obtain s where s: "ToString rt (currentValue k) = Inr s"
      and l: "l8 = [''<b>Current:</b> <code>'' @ concat (map escape_char s) @ ''</code>'']"
      by (auto simp: current_line_def markup_line_def escapeHtml_string split: sum.splits)
    have mem: "Inr l8 \<in> set [ title_line rt k, description_lines k, Inr [[]],
        severity_line k, status_line k, source_line k, metric_line k, current_line rt k,
        threshold_line rt k, time_line rt k, link_line k ]"
      using parts(1) by simp
    have x: "''<b>Current:</b> <code>'' @ concat (map escape_char s) @ ''</code>'' \<in> set l8"
      unfolding l by (rule list.set_intros)
    from label_in_message [OF a b mem x] s show ?thesis by blast
  qed
  have thr: "\<exists>s. ToString rt (threshold k) = Inr s \<and>
      sublist (''<b>Threshold:</b> <code>'' @ concat (map escape_char s) @ ''</code>'') msg"
    if "threshold k \<noteq> JNull"
  proof -
    from that parts(2) obtain s where s: "ToString rt (threshold k) = Inr s"
      and l: "l9 = [''<b>Threshold:</b> <code>'' @ concat (map escape_char s) @ ''</code>'']"
      by (auto simp: threshold_line_def markup_line_def escapeHtml_string split: sum.splits)
    have mem: "Inr l9 \<in> set [ title_line rt k, description_lines k, Inr [[]],
        severity_line k, status_line k, source_line k, metric_line k, current_line rt k,
        threshold_line rt k, time_line rt k, link_line k ]"
      using parts(2) by simp
    have x: "''<b>Threshold:</b> <code>'' @ concat (map escape_char s) @ ''</code>'' \<in> set l9"
      unfolding l by (rule list.set_intros)
    from label_in_message [OF a b mem x] s show ?thesis by blast
  qed
  have none: "\<not> list_ex (\<lambda>lab. sublist lab msg) message_labels"
    if "\<not> truthy (source k) \<and> metric k = [] \<and> currentValue k = JNull \<and> threshold k = JNull \<and>
      \<not> truthy (actionUrl k)"
    using that iffs by (simp add: message_labels_def)
  have str: "\<forall>s. source k = JStr s \<longrightarrow> (sublist ''<b>Source:</b>'' msg \<longleftrightarrow> s \<noteq> [])"
    "\<forall>s. actionUrl k = JStr s \<longrightarrow> (sublist ''<a href='' msg \<longleftrightarrow> s \<noteq> [])"
    using iffs by simp_all
  show ?thesis
    using iffs str cur thr none by blast
qed

theorem conditional_lines_witness:
  "(\<exists>msg. buildTelegramMessage sample_runtime sample_alert = Inr msg \<and>
      sublist ''<b>Source:</b>'' msg \<and> \<not> sublist ''<b>Monitor:</b>'' msg \<and>
      sublist ''<b>Current:</b>'' msg \<and> \<not> sublist ''<b>Threshold:</b>'' msg \<and>
      sublist ''<a href='' msg \<and> sublist ''<b>Current:</b> <code>5</code>'' msg) \<and>
   (\<exists>msg. buildTelegramMessage sample_runtime bare_alert = Inr msg \<and>
      \<not> list_ex (\<lambda>lab. sublist lab msg) message_labels)"
proof -
  obtain m1 where m1: "buildTelegramMessage sample_runtime sample_alert = Inr m1"
    by (simp add: buildTelegramMessage_def sample_alert_lines)
  obtain m2 where m2: "buildTelegramMessage sample_runtime bare_alert = Inr m2"
    by (simp add: buildTelegramMessage_def bare_alert_lines)
  note s = conditional_lines [OF m1]
  note n = conditional_lines [OF m2]
  have v: "truthy (source sample_alert)" "metric sample_alert = []"
    "currentValue sample_alert \<noteq> JNull" "threshold sample_alert = JNull"
    "truthy (actionUrl sample_alert)"
    "ToString sample_runtime (currentValue sample_alert) = Inr ''5''"
    by (simp_all add: sample_alert_def sample_runtime_def)
  have w: "\<not> truthy (source bare_alert)" "metric bare_alert = []"
    "currentValue bare_alert = JNull" "threshold bare_alert = JNull"
    "\<not> truthy (actionUrl bare_alert)"
    by (simp_all add: bare_alert_def)
  have c: "sublist ''<b>Current:</b> <code>5</code>'' m1"
    using s v by (simp add: escape_char_def)
  have 1: "\<exists>msg. buildTelegramMessage sample_runtime sample_alert = Inr msg \<and>
      sublist ''<b>Source:</b>'' msg \<and> \<not> sublist ''<b>Monitor:</b>'' msg \<and>
      sublist ''<b>Current:</b>'' msg \<and> \<not> sublist ''<b>Threshold:</b>'' msg \<and>
      sublist ''<a href='' msg \<and> sublist ''<b>Current:</b> <code>5</code>'' msg"
    using m1 s v c by simp
  have 2: "\<exists>msg. buildTelegramMessage sample_runtime bare_alert = Inr msg \<and>
      \<not> list_ex (\<lambda>lab. sublist lab msg) message_labels"
    using m2 n w by simp
  from 1 2 show ?thesis by blast
qed

subsection \<open>Fields that are never empty\<close>

text \<open>
  C10. Whenever normalize returns (the clock reading being a non-empty string, as an ISO
  date is), alertName, severity, status, source, timestamp and actionText of the result
  are truthy, so none of them is the empty string; an inbound value that is missing or
  empty (or otherwise falsy) is replaced by the field's default. Hence every message
  rendered from an output of normalize holds the Severity, Status, Source and Time
  labels; and for an event of the declared types the message is rendered.
\<close>

theorem normalized_fields_nonempty:
  assumes "now \<noteq> []" "normalize rt now p = Inr k"
  shows "truthy (alertName k) \<and> truthy (severity k) \<and> truthy (status k) \<and>
     truthy (source k) \<and> truthy (timestamp k) \<and> truthy (actionText k) \<and>
     alertName k \<noteq> JStr [] \<and> severity k \<noteq> JStr [] \<and> status k \<noteq> JStr [] \<and>
     source k \<noteq> JStr [] \<and> timestamp k \<noteq> JStr [] \<and> actionText k \<noteq> JStr [] \<and>
     (falsy_opt (get_prop p ''alert_name'') \<longrightarrow> alertName k = JStr ''Alert'') \<and>
     (falsy_opt (get_prop p ''severity'') \<longrightarrow> severity k = JStr ''unknown'') \<and>
     (falsy_opt (get_prop p ''status'') \<longrightarrow> status k = JStr ''UNKNOWN'') \<and>
     (falsy_opt (get_prop p ''source'') \<longrightarrow> source k = JStr ''Kener'') \<and>
     (falsy_opt (get_prop p ''timestamp'') \<longrightarrow> timestamp k = JStr now) \<and>
     (falsy_opt (get_prop (first_action p) ''text'') \<longrightarrow> actionText k = JStr ''Open'') \<and>
     (\<forall>msg. buildTelegramMessage rt k = Inr msg \<longrightarrow>
        sublist ''<b>Severity:</b>'' msg \<and> sublist ''<b>Status:</b>'' msg \<and>
        sublist ''<b>Source:</b>'' msg \<and> sublist ''<b>Time:</b>'' msg) \<and>
     (KenerPayload_typed p \<longrightarrow> (\<exists>msg. buildTelegramMessage rt k = Inr msg))"
proof -
  note f = normalize_fields [OF assms(2)]
  have t: "truthy (alertName k)" "truthy (severity k)" "truthy (status k)"
     "truthy (source k)" "truthy (timestamp k)" "truthy (actionText k)"
    using assms(1) by (simp_all add: f or_else_truthy)
  have d: "falsy_opt (get_prop p ''alert_name'') \<longrightarrow> alertName k = JStr ''Alert''"
     "falsy_opt (get_prop p ''severity'') \<longrightarrow> severity k = JStr ''unknown''"
     "falsy_opt (get_prop p ''status'') \<longrightarrow> status k = JStr ''UNKNOWN''"
     "falsy_opt (get_prop p ''source'') \<longrightarrow> source k = JStr ''Kener''"
     "falsy_opt (get_prop p ''timestamp'') \<longrightarrow> timestamp k = JStr now"
     "falsy_opt (get_prop (first_action p) ''text'') \<longrightarrow> actionText k = JStr ''Open''"
    by (simp_all add: f or_else_falsy)
  have m: "sublist ''<b>Severity:</b>'' msg \<and> sublist ''<b>Status:</b>'' msg \<and>
        sublist ''<b>Source:</b>'' msg \<and> sublist ''<b>Time:</b>'' msg"
    if b: "buildTelegramMessage rt k = Inr msg" for msg
  proof -
    from b obtain ls where ls: "telegramLines rt k = Inr ls"
      by (auto simp: buildTelegramMessage_def split: sum.splits)
    obtain l4 l5 l6 l10 where parts:
      "severity_line k = Inr l4" "status_line k = Inr l5" "source_line k = Inr l6"
      "time_line rt k = Inr l10"
      using collect_parts [OF ls [unfolded telegramLines_def]]
      by (metis list.set_intros)
    have s1: "sublist ''<b>Severity:</b>'' (severityEmoji (severity k) @ '' <b>Severity:</b> <code>'')"
      unfolding sublist_def
      by (rule exI [of _ "severityEmoji (severity k) @ '' ''"], rule exI [of _ "'' <code>''"]) simp
    have x4: "\<exists>x\<in>set l4. sublist ''<b>Severity:</b>'' x"
      using parts(1) s1 unfolding severity_line_def by (rule markup_line_sublist)
    have x5: "\<exists>x\<in>set l5. sublist ''<b>Status:</b>'' x"
      using parts(2) unfolding status_line_def
      by (rule markup_line_sublist) (simp add: sublist_code)
    have x6: "\<exists>x\<in>set l6. sublist ''<b>Source:</b>'' x"
      using parts(3) t(4) unfolding source_line_def
      by (simp, rule_tac markup_line_sublist) (assumption, simp add: sublist_code)
    have x10: "\<exists>x\<in>set l10. sublist ''<b>Time:</b>'' x"
      using parts(4) t(5) unfolding time_line_def
      by (simp, rule_tac markup_line_sublist) (assumption, simp add: sublist_code)
    show ?thesis
      using x4 x5 x6 x10 parts label_in_message [OF ls b]
      by (metis list.set_intros)
  qed
  have e: "\<exists>msg. buildTelegramMessage rt k = Inr msg" if "KenerPayload_typed p"
  proof -
    have "k = documented_defaults now p"
      using normalize_typed [OF that, of rt now] assms(2) by simp
    then have "NormalizedAlert_typed k"
      using documented_defaults_typed [OF that] by simp
    from typed_alert_renders [OF this, of rt] show ?thesis
      by (auto simp: buildTelegramMessage_def)
  qed
  show ?thesis
    using t d m e by (auto dest: truthy_not_empty)
qed

theorem normalized_fields_nonempty_witness:
  "\<exists>k msg.
     normalize sample_runtime ''2024-01-02T03:04:05.000Z''
       (JObj [(''alert_name'', JStr []), (''severity'', JStr []), (''status'', JStr []),
              (''source'', JStr []), (''timestamp'', JStr []),
              (''actions'', JArr [JObj [(''text'', JStr [])]])]) = Inr k \<and>
     alertName k = JStr ''Alert'' \<and> severity k = JStr ''unknown'' \<and>
     status k = JStr ''UNKNOWN'' \<and> source k = JStr ''Kener'' \<and>
     timestamp k = JStr ''2024-01-02T03:04:05.000Z'' \<and> actionText k = JStr ''Open'' \<and>
     buildTelegramMessage sample_runtime k = Inr msg \<and>
     sublist ''<b>Severity:</b>'' msg \<and> sublist ''<b>Status:</b>'' msg \<and>
     sublist ''<b>Source:</b>'' msg \<and> sublist ''<b>Time:</b>'' msg"
proof -
  let ?p = "JObj [(''alert_name'', JStr []), (''severity'', JStr []), (''status'', JStr []),
              (''source'', JStr []), (''timestamp'', JStr []),
              (''actions'', JArr [JObj [(''text'', JStr [])]])]"
  have ty: "KenerPayload_typed ?p"
    by (simp add: KenerPayload_typed_def string_or_absent_def details_typed_def
        actions_typed_def action_typed_def)
  obtain k where k: "normalize sample_runtime ''2024-01-02T03:04:05.000Z'' ?p = Inr k"
    using normalize_typed [OF ty] by blast
  have ne: "''2024-01-02T03:04:05.000Z'' \<noteq> []" by simp
  note t = normalized_fields_nonempty [OF ne k]
  have f: "falsy_opt (get_prop ?p ''alert_name'')" "falsy_opt (get_prop ?p ''severity'')"
    "falsy_opt (get_prop ?p ''status'')" "falsy_opt (get_prop ?p ''source'')"
    "falsy_opt (get_prop ?p ''timestamp'')" "falsy_opt (get_prop (first_action ?p) ''text'')"
    by (simp_all add: falsy_opt_def first_action_def)
  from t ty obtain msg where m: "buildTelegramMessage sample_runtime k = Inr msg"
    by blast
  show ?thesis
    using k t f m by blast
qed

subsection \<open>The time line\<close>

text \<open>
  C5, on the code. For a timestamp that is a string, \<open>formatTime\<close> never takes its
  fallback: the date constructor and the locale rendering do not raise on a string, and
  an unparseable one renders as "Invalid Date". So the Time line of an alert whose
  timestamp is "not-a-date" reads "Invalid Date UTC", not the raw timestamp.
\<close>

theorem formatTime_unparseable:
  "formatTime rt (JStr s) =
     JStr ((case Date_parse rt s of None \<Rightarrow> ''Invalid Date'' | Some t \<Rightarrow> Date_format rt t)
           @ '' UTC'') \<and>
   timestamp bare_alert = JStr ''not-a-date'' \<and>
   time_line sample_runtime bare_alert = Inr [''<b>Time:</b> <code>Invalid Date UTC</code>''] \<and>
   map_sum id (sublist ''not-a-date'') (buildTelegramMessage sample_runtime bare_alert)
     = Inr False"
proof -
  have 1: "formatTime rt (JStr s) =
     JStr ((case Date_parse rt s of None \<Rightarrow> ''Invalid Date'' | Some t \<Rightarrow> Date_format rt t)
           @ '' UTC'')"
    by (simp add: formatTime_def new_Date_def Date_toLocaleString_def)
  have 2: "time_line sample_runtime bare_alert
             = Inr [''<b>Time:</b> <code>Invalid Date UTC</code>'']"
    by (simp add: time_line_def bare_alert_def formatTime_def new_Date_def
        Date_toLocaleString_def sample_runtime_def markup_line_def escapeHtml_def or_else_def
        replaceAll_def)
  have 3: "map_sum id (sublist ''not-a-date'') (buildTelegramMessage sample_runtime bare_alert)
     = Inr False"
    by (simp add: buildTelegramMessage_def bare_alert_lines glyph_other_def glyph_fine_def
        sublist_code)
  from 1 2 3 show ?thesis by (simp add: bare_alert_def)
qed

end
